theory Spec2Isabelle
  imports Main
begin

section \<open>The video service of \<open>src/services/geminiService.ts\<close>\<close>

text \<open>
  The development embeds \<open>generateTurnaroundVideo\<close>: it parses the data URL of the
  generated image, submits a video job, polls the job every 5000 ms until it reports
  \<open>done\<close>, reads the URI of the first generated video, downloads it and returns an
  object URL; every error caught on the way is logged and rethrown as a fresh \<open>Error\<close>.
\<close>

subsection \<open>Data\<close>

text \<open>A thrown JavaScript error object, by the two properties the code and its caller read.\<close>

record js_error =
  name :: string
  message :: string

text \<open>\<open>new Error(m)\<close>.\<close>

definition newError :: "string \<Rightarrow> js_error" where
  "newError m = \<lparr>name = ''Error'', message = m\<rparr>"

text \<open>
  The operation object of the provider, by the fields the code reads
  (\<open>done\<close>, \<open>response?.generatedVideos?.[0]?.video?.uri\<close>) and the error payload, which the
  code never reads. Every optional field is an \<open>option\<close>; an absent \<open>done\<close> is \<open>False\<close>,
  as \<open>!operation.done\<close> treats it.
\<close>

record Video =
  uri :: "string option"

record GeneratedVideo =
  video :: "Video option"

record GenerateVideosResponse =
  generatedVideos :: "GeneratedVideo list option"

record Operation =
  op_done :: bool
  response :: "GenerateVideosResponse option"
  op_error :: "string option"

text \<open>The response of \<open>fetch\<close>: \<open>ok\<close>, \<open>statusText\<close>, and what \<open>blob()\<close> settles to.\<close>

record HttpResponse =
  ok :: bool
  statusText :: string
  blob :: "js_error + string"

text \<open>
  The outside world of one call, as the answers it gives: the provider's answer to
  \<open>generateVideos\<close>, its answer to the k-th \<open>getVideosOperation\<close> (k from 0), the answer
  to \<open>fetch\<close>, the object URL minted for a blob, the API key as interpolated into the
  download URL, and the message of the engine's \<open>TypeError\<close> for reading a property of
  \<open>undefined\<close>. Within one call the arguments of each request are determined by the
  earlier answers, so answers indexed by call number describe every run.
\<close>

record world =
  generateVideos :: "js_error + Operation"
  getVideosOperation :: "nat \<Rightarrow> js_error + Operation"
  fetch :: "js_error + HttpResponse"
  createObjectURL :: "string \<Rightarrow> string"
  API_KEY :: string
  typeErrorMessage :: string

text \<open>What the call does to the world, in order.\<close>

datatype event =
    GenerateVideos "string option" string
  | Sleep nat
  | GetVideosOperation
  | Fetch string
  | ConsoleError js_error

subsection \<open>Parsing the data URL\<close>

text \<open>\<open>s.split(c)\<close> for a one-character separator: never empty, \<open>''''.split(c) = ['''']\<close>.\<close>

fun js_split :: "char \<Rightarrow> string \<Rightarrow> string list" where
  "js_split c [] = [[]]"
| "js_split c (x # xs) =
     (if x = c then [] # js_split c xs
      else (case js_split c xs of [] \<Rightarrow> [[x]] | p # ps \<Rightarrow> (x # p) # ps))"

text \<open>\<open>xs[i]\<close>: \<open>undefined\<close> out of range.\<close>

definition at_index :: "'a list \<Rightarrow> nat \<Rightarrow> 'a option" where
  "at_index xs i = (if i < length xs then Some (xs ! i) else None)"

text \<open>
  Lines 270-272: \<open>parts = imageDataUrl.split(',')\<close>, \<open>base64Data = parts[1]\<close> (possibly
  \<open>undefined\<close>), \<open>mimeType = parts[0].split(':')[1].split(';')[0]\<close>. Without a colon before
  the first comma the second \<open>split\<close> is called on \<open>undefined\<close> and throws a \<open>TypeError\<close>:
  the result is \<open>None\<close>.
\<close>

definition dataUrlParts :: "string \<Rightarrow> (string option \<times> string) option" where
  "dataUrlParts imageDataUrl =
     (let parts = js_split CHR '','' imageDataUrl;
          base64Data = at_index parts 1
      in case at_index (js_split CHR '':'' (hd parts)) 1 of
           None \<Rightarrow> None
         | Some m \<Rightarrow> Some (base64Data, hd (js_split CHR '';'' m)))"

subsection \<open>The polling loop\<close>

text \<open>
  Lines 288-291. \<open>pollLoop w k operation tr\<close> runs the loop from the state in which \<open>k\<close>
  status calls have been made, \<open>operation\<close> is the current job and \<open>tr\<close> the events so far.
  It returns the job that reported \<open>done\<close>, or the error a status call raised, with the
  events; \<open>None\<close> is a loop that never ends.
\<close>

partial_function (option) pollLoop ::
  "world \<Rightarrow> nat \<Rightarrow> Operation \<Rightarrow> event list \<Rightarrow> ((js_error + Operation) \<times> event list) option"
where
  "pollLoop w k operation tr =
     (if op_done operation then Some (Inr operation, tr)
      else (case getVideosOperation w k of
              Inl e \<Rightarrow> Some (Inl e, tr @ [Sleep 5000, GetVideosOperation])
            | Inr operation' \<Rightarrow> pollLoop w (Suc k) operation' (tr @ [Sleep 5000, GetVideosOperation])))"

declare pollLoop.simps [code]

subsection \<open>Reading the result and downloading it\<close>

text \<open>Line 293: \<open>operation.response?.generatedVideos?.[0]?.video?.uri\<close>.\<close>

definition videoUriOf :: "Operation \<Rightarrow> string option" where
  "videoUriOf operation =
     (case response operation of
        None \<Rightarrow> None
      | Some r \<Rightarrow>
          (case generatedVideos r of
             None \<Rightarrow> None
           | Some vs \<Rightarrow>
               (case at_index vs 0 of
                  None \<Rightarrow> None
                | Some g \<Rightarrow> (case video g of None \<Rightarrow> None | Some v \<Rightarrow> uri v))))"

text \<open>
  Lines 293-296: \<open>if (!videoUri) throw new Error("No video URI in response")\<close>; an
  absent URI and the empty string are both falsy.
\<close>

definition extractVideoUri :: "Operation \<Rightarrow> js_error + string" where
  "extractVideoUri operation =
     (case videoUriOf operation of
        None \<Rightarrow> Inl (newError ''No video URI in response'')
      | Some videoUri \<Rightarrow>
          if videoUri = [] then Inl (newError ''No video URI in response'') else Inr videoUri)"

text \<open>
  Lines 298-303: the video is fetched from the URI with the key appended, a response that
  is not \<open>ok\<close> throws, and the object URL of the blob is returned.
\<close>

definition downloadVideo :: "world \<Rightarrow> string \<Rightarrow> event list \<Rightarrow> (js_error + string) \<times> event list" where
  "downloadVideo w videoUri tr =
     (let tr' = tr @ [Fetch (videoUri @ ''&key='' @ API_KEY w)]
      in case fetch w of
           Inl e \<Rightarrow> (Inl e, tr')
         | Inr r \<Rightarrow>
             if \<not> ok r then (Inl (newError (''Failed to download video: '' @ statusText r)), tr')
             else (case blob r of
                     Inl e \<Rightarrow> (Inl e, tr')
                   | Inr b \<Rightarrow> (Inr (createObjectURL w b), tr')))"

text \<open>Lines 293-303 together: what follows the loop once the job is done.\<close>

definition retrieveVideo :: "world \<Rightarrow> Operation \<Rightarrow> event list \<Rightarrow> (js_error + string) \<times> event list" where
  "retrieveVideo w operation tr =
     (case extractVideoUri operation of
        Inl e \<Rightarrow> (Inl e, tr)
      | Inr videoUri \<Rightarrow> downloadVideo w videoUri tr)"

subsection \<open>The whole call\<close>

text \<open>
  The \<open>try\<close> block from line 270 on, in a world where \<open>getAI()\<close> of line 268 has returned
  the client. The case in which \<open>getAI()\<close> throws is added in front below.
\<close>

definition tryBlock :: "world \<Rightarrow> string \<Rightarrow> ((js_error + string) \<times> event list) option" where
  "tryBlock w imageDataUrl =
     (case dataUrlParts imageDataUrl of
        None \<Rightarrow> Some (Inl \<lparr>name = ''TypeError'', message = typeErrorMessage w\<rparr>, [])
      | Some (base64Data, mimeType) \<Rightarrow>
          (case generateVideos w of
             Inl e \<Rightarrow> Some (Inl e, [GenerateVideos base64Data mimeType])
           | Inr operation \<Rightarrow>
               (case pollLoop w 0 operation [GenerateVideos base64Data mimeType] of
                  None \<Rightarrow> None
                | Some (Inl e, tr) \<Rightarrow> Some (Inl e, tr)
                | Some (Inr operation', tr) \<Rightarrow> Some (retrieveVideo w operation' tr))))"

text \<open>
  The \<open>catch\<close> block, lines 305-308: the error is logged and a fresh \<open>Error\<close> is thrown with
  \<open>error.message || "Failed to generate video."\<close>.
\<close>

definition rethrown :: "js_error \<Rightarrow> js_error" where
  "rethrown e = newError (if message e = [] then ''Failed to generate video.'' else message e)"

fun catchBlock :: "(js_error + string) \<times> event list \<Rightarrow> (js_error + string) \<times> event list" where
  "catchBlock (Inl e, tr) = (Inl (rethrown e), tr @ [ConsoleError e])"
| "catchBlock (Inr url, tr) = (Inr url, tr)"

text \<open>
  The call settles with \<open>Inr url\<close> (resolved) or \<open>Inl e\<close> (rejected), with the events it
  caused; \<open>None\<close> is a call that never settles. This is the call in a world where the
  client exists.
\<close>

definition generateTurnaroundVideo ::
  "world \<Rightarrow> string \<Rightarrow> ((js_error + string) \<times> event list) option" where
  "generateTurnaroundVideo w imageDataUrl = map_option catchBlock (tryBlock w imageDataUrl)"

text \<open>
  Line 268, the first statement of the \<open>try\<close> block: \<open>getAI()\<close> constructs a fresh client
  from the API key. The constructor may throw (the browser build of the library does so
  without a key), before the data URL is looked at, and the error is caught like every
  other. With the outcome of \<open>getAI()\<close> in front, \<open>Inl e\<close> for the error it throws and
  \<open>Inr w\<close> for a client in the world \<open>w\<close>, the whole call is:
\<close>

definition generateTurnaroundVideoFrom ::
  "js_error + world \<Rightarrow> string \<Rightarrow> ((js_error + string) \<times> event list) option" where
  "generateTurnaroundVideoFrom getAI imageDataUrl =
     (case getAI of
        Inl e \<Rightarrow> Some (catchBlock (Inl e, []))
      | Inr w \<Rightarrow> generateTurnaroundVideo w imageDataUrl)"

subsection \<open>Vocabulary for runs\<close>

text \<open>\<open>n\<close> iterations of the loop: a suspension of 5000 ms, then a status fetch.\<close>

definition rounds :: "nat \<Rightarrow> event list" where
  "rounds n = concat (replicate n [Sleep 5000, GetVideosOperation])"

text \<open>The suspensions of a run, the time spent in them, and the number of status fetches.\<close>

fun sleeps :: "event list \<Rightarrow> nat list" where
  "sleeps [] = []"
| "sleeps (Sleep d # tr) = d # sleeps tr"
| "sleeps (_ # tr) = sleeps tr"

definition suspended :: "event list \<Rightarrow> nat" where
  "suspended tr = sum_list (sleeps tr)"

definition fetches :: "event list \<Rightarrow> nat" where
  "fetches tr = length (filter (\<lambda>e. e = GetVideosOperation) tr)"

text \<open>An answer of the provider ends the loop: an error, or a job that is done.\<close>

definition settles :: "js_error + Operation \<Rightarrow> bool" where
  "settles a = (case a of Inl _ \<Rightarrow> True | Inr operation \<Rightarrow> op_done operation)"

text \<open>The \<open>n\<close> answers from the k-th on are all jobs that are not done.\<close>

fun pending :: "world \<Rightarrow> nat \<Rightarrow> nat \<Rightarrow> bool" where
  "pending w k 0 = True"
| "pending w k (Suc n) = (\<not> settles (getVideosOperation w k) \<and> pending w (Suc k) n)"

text \<open>
  \<open>doneAfter w N operation\<close>: the job first reports \<open>done\<close> after \<open>N\<close> status fetches, as
  \<open>operation\<close>. For \<open>N = 0\<close> the job that \<open>generateVideos\<close> returned is done already; for
  \<open>N > 0\<close> that job and the first \<open>N - 1\<close> answers are not done and the N-th answer is.
\<close>

fun doneAfter :: "world \<Rightarrow> nat \<Rightarrow> Operation \<Rightarrow> bool" where
  "doneAfter w 0 operation = (generateVideos w = Inr operation \<and> op_done operation)"
| "doneAfter w (Suc n) operation =
     (\<not> settles (generateVideos w) \<and> pending w 0 n \<and>
      getVideosOperation w n = Inr operation \<and> op_done operation)"

text \<open>
  \<open>raisesAfter w N e\<close>: the first call to raise is \<open>generateVideos\<close> (\<open>N = 0\<close>) or the N-th
  status fetch, after \<open>N - 1\<close> answers that were not done; it raises \<open>e\<close>.
\<close>

fun raisesAfter :: "world \<Rightarrow> nat \<Rightarrow> js_error \<Rightarrow> bool" where
  "raisesAfter w 0 e = (generateVideos w = Inl e)"
| "raisesAfter w (Suc n) e =
     (\<not> settles (generateVideos w) \<and> pending w 0 n \<and> getVideosOperation w n = Inl e)"

subsection \<open>Concrete jobs and worlds\<close>

text \<open>A job still running, a job done with one video at a URI, and a job done with nothing.\<close>

definition pendingJob :: Operation where
  "pendingJob = \<lparr>op_done = False, response = None, op_error = None\<rparr>"

definition finishedJob :: "string \<Rightarrow> Operation" where
  "finishedJob u =
     \<lparr>op_done = True,
      response = Some \<lparr>generatedVideos = Some [\<lparr>video = Some \<lparr>uri = Some u\<rparr>\<rparr>]\<rparr>,
      op_error = None\<rparr>"

definition emptyJob :: Operation where
  "emptyJob = \<lparr>op_done = True, response = None, op_error = None\<rparr>"

text \<open>The status answers given by a list; once the list is used up the job stays pending.\<close>

definition answersOf :: "(js_error + Operation) list \<Rightarrow> nat \<Rightarrow> js_error + Operation" where
  "answersOf xs k = (if k < length xs then xs ! k else Inr pendingJob)"

text \<open>A world with the given answers, the key \<open>KEY\<close> and object URLs \<open>blob:\<close>\<dots>\<close>

definition worldOf ::
  "(js_error + Operation) \<Rightarrow> (nat \<Rightarrow> js_error + Operation) \<Rightarrow> (js_error + HttpResponse) \<Rightarrow> world" where
  "worldOf created answers fetched =
     \<lparr>generateVideos = created, getVideosOperation = answers, fetch = fetched,
      createObjectURL = (\<lambda>b. ''blob:'' @ b), API_KEY = ''KEY'',
      typeErrorMessage = ''undefined has no properties''\<rparr>"

text \<open>A download that succeeds with the bytes \<open>video\<close>.\<close>

definition okResponse :: HttpResponse where
  "okResponse = \<lparr>ok = True, statusText = ''OK'', blob = Inr ''video''\<rparr>"

section \<open>Properties\<close>

subsection \<open>The loop\<close>

lemmas pollLoop_induct = pollLoop.raw_induct [rotated 1, consumes 1, case_names step]

lemma js_split_nonempty: "js_split c s \<noteq> []"
  by (induction s) (auto split: list.splits)

lemma rounds_0: "rounds 0 = []"
  by (simp add: rounds_def)

lemma rounds_Suc: "rounds (Suc n) = Sleep 5000 # GetVideosOperation # rounds n"
  by (simp add: rounds_def)

lemma rounds_snoc: "rounds n @ [Sleep 5000, GetVideosOperation] = rounds (Suc n)"
  by (induction n) (simp_all add: rounds_def)

lemma sleeps_append: "sleeps (xs @ ys) = sleeps xs @ sleeps ys"
  by (induction xs rule: sleeps.induct) simp_all

lemma sleeps_rounds: "sleeps (rounds n) = replicate n 5000"
  by (induction n) (simp_all add: rounds_0 rounds_Suc)

lemma suspended_rounds: "suspended (rounds n) = n * 5000"
  by (simp add: suspended_def sleeps_rounds sum_list_replicate)

lemma fetches_append: "fetches (xs @ ys) = fetches xs + fetches ys"
  by (simp add: fetches_def)

lemma fetches_Cons: "fetches (e # tr) = (if e = GetVideosOperation then 1 else 0) + fetches tr"
  by (simp add: fetches_def)

lemma fetches_Nil: "fetches [] = 0"
  by (simp add: fetches_def)

lemma fetches_rounds: "fetches (rounds n) = n"
  by (induction n) (simp_all add: rounds_0 rounds_Suc fetches_Cons fetches_Nil)

lemma pending_iff: "pending w k n \<longleftrightarrow> (\<forall>i<n. \<not> settles (getVideosOperation w (k + i)))"
proof (induction n arbitrary: k)
  case 0
  then show ?case by simp
next
  case (Suc n)
  show ?case
    by (auto simp: Suc.IH less_Suc_eq_0_disj)
qed

lemma pollLoop_done: "op_done operation \<Longrightarrow> pollLoop w k operation tr = Some (Inr operation, tr)"
  by (subst pollLoop.simps) simp

lemma pollLoop_raise:
  "\<not> op_done operation \<Longrightarrow> getVideosOperation w k = Inl e \<Longrightarrow>
   pollLoop w k operation tr = Some (Inl e, tr @ [Sleep 5000, GetVideosOperation])"
  by (subst pollLoop.simps) simp

lemma pollLoop_step:
  "\<not> op_done operation \<Longrightarrow> getVideosOperation w k = Inr operation' \<Longrightarrow>
   pollLoop w k operation tr = pollLoop w (Suc k) operation' (tr @ [Sleep 5000, GetVideosOperation])"
  by (subst pollLoop.simps) simp

lemma pollLoop_pending:
  "\<not> op_done operation \<Longrightarrow> pending w k n \<Longrightarrow>
   pollLoop w k operation tr =
     (case getVideosOperation w (k + n) of
        Inl e \<Rightarrow> Some (Inl e, tr @ rounds (Suc n))
      | Inr operation' \<Rightarrow> pollLoop w (Suc (k + n)) operation' (tr @ rounds (Suc n)))"
proof (induction n arbitrary: k operation tr)
  case 0
  then show ?case
    by (cases "getVideosOperation w k") (simp_all add: pollLoop_raise pollLoop_step rounds_def)
next
  case (Suc n)
  from Suc.prems(2) have ns: "\<not> settles (getVideosOperation w k)" and p: "pending w (Suc k) n"
    by simp_all
  from ns obtain o' where o': "getVideosOperation w k = Inr o'" "\<not> op_done o'"
    by (cases "getVideosOperation w k") (simp_all add: settles_def)
  have "pollLoop w k operation tr = pollLoop w (Suc k) o' (tr @ [Sleep 5000, GetVideosOperation])"
    using Suc.prems(1) o'(1) by (rule pollLoop_step)
  also have "\<dots> = (case getVideosOperation w (Suc k + n) of
        Inl e \<Rightarrow> Some (Inl e, (tr @ [Sleep 5000, GetVideosOperation]) @ rounds (Suc n))
      | Inr operation' \<Rightarrow> pollLoop w (Suc (Suc k + n)) operation' ((tr @ [Sleep 5000, GetVideosOperation]) @ rounds (Suc n)))"
    using o'(2) p by (rule Suc.IH)
  also have "(tr @ [Sleep 5000, GetVideosOperation]) @ rounds (Suc n) = tr @ rounds (Suc (Suc n))"
    by (simp add: rounds_Suc)
  finally show ?case
    by (simp split: sum.splits)
qed

lemma pollLoop_Some_settles:
  "pollLoop w k operation tr = Some y \<Longrightarrow> op_done operation \<or> (\<exists>n. settles (getVideosOperation w (k + n)))"
proof (induct rule: pollLoop_induct)
  case (step f w k operation tr y)
  show ?case
  proof (cases "op_done operation")
    case True
    then show ?thesis by simp
  next
    case False
    show ?thesis
    proof (cases "getVideosOperation w k")
      case (Inl e)
      then have "settles (getVideosOperation w (k + 0))" by (simp add: settles_def)
      then show ?thesis by blast
    next
      case (Inr o')
      with False step(2) have "f w (Suc k) o' (tr @ [Sleep 5000, GetVideosOperation]) = Some y"
        by simp
      from step(1) [OF this] show ?thesis
      proof
        assume "op_done o'"
        with Inr have "settles (getVideosOperation w (k + 0))" by (simp add: settles_def)
        then show ?thesis by blast
      next
        assume "\<exists>n. settles (getVideosOperation w (Suc k + n))"
        then obtain n where "settles (getVideosOperation w (k + Suc n))" by auto
        then show ?thesis by blast
      qed
    qed
  qed
qed

lemma pollLoop_shape:
  "pollLoop w k operation tr = Some y \<Longrightarrow>
   \<exists>n. snd y = tr @ rounds n \<and> (case fst y of Inl e \<Rightarrow> True | Inr operation' \<Rightarrow> op_done operation')"
proof (induct rule: pollLoop_induct)
  case (step f w k operation tr y)
  show ?case
  proof (cases "op_done operation")
    case True
    with step(2) have "y = (Inr operation, tr)" by simp
    with True have "snd y = tr @ rounds 0 \<and> (case fst y of Inl e \<Rightarrow> True | Inr operation' \<Rightarrow> op_done operation')"
      by (simp add: rounds_def)
    then show ?thesis by blast
  next
    case False
    show ?thesis
    proof (cases "getVideosOperation w k")
      case (Inl e)
      with False step(2) have "y = (Inl e, tr @ rounds 1)" by (simp add: rounds_def)
      then have "snd y = tr @ rounds 1 \<and> (case fst y of Inl e \<Rightarrow> True | Inr operation' \<Rightarrow> op_done operation')"
        by simp
      then show ?thesis by blast
    next
      case (Inr o')
      with False step(2) have "f w (Suc k) o' (tr @ [Sleep 5000, GetVideosOperation]) = Some y"
        by simp
      from step(1) [OF this] obtain n where
        n: "snd y = (tr @ [Sleep 5000, GetVideosOperation]) @ rounds n"
           "case fst y of Inl e \<Rightarrow> True | Inr operation' \<Rightarrow> op_done operation'"
        by blast
      from n(1) have "snd y = tr @ rounds (Suc n)" by (simp add: rounds_Suc)
      with n(2) show ?thesis by blast
    qed
  qed
qed

lemma pollLoop_terminates:
  "settles (getVideosOperation w (k + n)) \<Longrightarrow> pollLoop w k operation tr \<noteq> None"
proof (induction n arbitrary: k operation tr)
  case 0
  show ?case
  proof (cases "op_done operation")
    case True
    then show ?thesis by (simp add: pollLoop_done)
  next
    case False
    with 0 show ?thesis
      by (cases "getVideosOperation w k") (simp_all add: pollLoop_raise pollLoop_step pollLoop_done settles_def)
  qed
next
  case (Suc n)
  then have s: "settles (getVideosOperation w (Suc k + n))" by simp
  show ?case
  proof (cases "op_done operation")
    case True
    then show ?thesis by (simp add: pollLoop_done)
  next
    case False
    show ?thesis
    proof (cases "getVideosOperation w k")
      case (Inl e)
      with False show ?thesis by (simp add: pollLoop_raise)
    next
      case (Inr o')
      with False show ?thesis using Suc.IH [OF s] by (simp add: pollLoop_step)
    qed
  qed
qed

subsection \<open>Runs of the try block\<close>

lemma tryBlock_doneAfter:
  assumes "dataUrlParts imageDataUrl = Some (b, m)" and "doneAfter w N operation"
  shows "tryBlock w imageDataUrl =
           Some (retrieveVideo w operation (GenerateVideos b m # rounds N))"
proof (cases N)
  case 0
  with assms show ?thesis
    by (simp add: tryBlock_def pollLoop_done rounds_0)
next
  case (Suc n)
  with assms(2) obtain op0 where op0: "generateVideos w = Inr op0" "\<not> op_done op0"
    and p: "pending w 0 n" and a: "getVideosOperation w n = Inr operation" and d: "op_done operation"
    by (cases "generateVideos w") (auto simp: settles_def)
  have "pollLoop w 0 op0 [GenerateVideos b m] = Some (Inr operation, GenerateVideos b m # rounds N)"
    using pollLoop_pending [OF op0(2) p, of "[GenerateVideos b m]"] a d Suc
    by (simp add: pollLoop_done)
  with assms(1) op0(1) show ?thesis
    by (simp add: tryBlock_def)
qed

lemma tryBlock_raisesAfter:
  assumes "dataUrlParts imageDataUrl = Some (b, m)" and "raisesAfter w N e"
  shows "tryBlock w imageDataUrl = Some (Inl e, GenerateVideos b m # rounds N)"
proof (cases N)
  case 0
  with assms show ?thesis
    by (simp add: tryBlock_def rounds_0)
next
  case (Suc n)
  with assms(2) obtain op0 where op0: "generateVideos w = Inr op0" "\<not> op_done op0"
    and p: "pending w 0 n" and a: "getVideosOperation w n = Inl e"
    by (cases "generateVideos w") (auto simp: settles_def)
  have "pollLoop w 0 op0 [GenerateVideos b m] = Some (Inl e, GenerateVideos b m # rounds N)"
    using pollLoop_pending [OF op0(2) p, of "[GenerateVideos b m]"] a Suc
    by simp
  with assms(1) op0(1) show ?thesis
    by (simp add: tryBlock_def)
qed

subsection \<open>After the loop\<close>

lemma catch_sleeps: "sleeps (snd (catchBlock y)) = sleeps (snd y)"
  by (cases y rule: catchBlock.cases) (simp_all add: sleeps_append)

lemma catch_fetches: "fetches (snd (catchBlock y)) = fetches (snd y)"
  by (cases y rule: catchBlock.cases) (simp_all add: fetches_append fetches_Cons fetches_Nil)

lemma downloadVideo_trace:
  "snd (downloadVideo w u tr) = tr @ [Fetch (u @ ''&key='' @ API_KEY w)]"
  by (simp add: downloadVideo_def Let_def split: sum.splits)

lemma retrieveVideo_trace:
  "snd (retrieveVideo w operation tr) =
     tr @ (case extractVideoUri operation of Inl e \<Rightarrow> [] | Inr u \<Rightarrow> [Fetch (u @ ''&key='' @ API_KEY w)])"
  by (simp add: retrieveVideo_def downloadVideo_trace split: sum.splits)

lemma retrieveVideo_sleeps: "sleeps (snd (retrieveVideo w operation tr)) = sleeps tr"
  by (simp add: retrieveVideo_trace sleeps_append split: sum.splits)

lemma retrieveVideo_fetches: "fetches (snd (retrieveVideo w operation tr)) = fetches tr"
  by (simp add: retrieveVideo_trace fetches_append fetches_Cons fetches_Nil split: sum.splits)

lemma tryBlock_shape:
  assumes "tryBlock w imageDataUrl = Some y"
  shows "\<exists>n. sleeps (snd y) = replicate n 5000 \<and> fetches (snd y) = n"
proof (cases "dataUrlParts imageDataUrl")
  case None
  with assms have "y = (Inl \<lparr>name = ''TypeError'', message = typeErrorMessage w\<rparr>, [])"
    by (simp add: tryBlock_def)
  then have "sleeps (snd y) = replicate 0 5000 \<and> fetches (snd y) = 0"
    by (simp add: fetches_def)
  then show ?thesis by blast
next
  case (Some bm)
  obtain b m where bm: "bm = (b, m)" by (cases bm)
  show ?thesis
  proof (cases "generateVideos w")
    case (Inl e)
    with assms Some bm have "y = (Inl e, [GenerateVideos b m])"
      by (simp add: tryBlock_def)
    then have "sleeps (snd y) = replicate 0 5000 \<and> fetches (snd y) = 0"
      by (simp add: fetches_Cons fetches_Nil)
    then show ?thesis by blast
  next
    case (Inr op0)
    show ?thesis
    proof (cases "pollLoop w 0 op0 [GenerateVideos b m]")
      case None
      with assms Some bm Inr show ?thesis by (simp add: tryBlock_def)
    next
      case (Some z)
      from pollLoop_shape [OF Some] obtain n where
        n: "snd z = [GenerateVideos b m] @ rounds n" by blast
      have sz: "sleeps (snd z) = replicate n 5000 \<and> fetches (snd z) = n"
        by (simp add: n sleeps_rounds fetches_Cons fetches_rounds)
      obtain r tr where z: "z = (r, tr)" by (cases z)
      show ?thesis
      proof (cases r)
        case (Inl e)
        with assms \<open>dataUrlParts imageDataUrl = Some bm\<close> bm \<open>generateVideos w = Inr op0\<close> Some z have "snd y = snd z"
          by (auto simp: tryBlock_def)
        with sz show ?thesis by auto
      next
        case (Inr operation')
        with assms \<open>dataUrlParts imageDataUrl = Some bm\<close> bm \<open>generateVideos w = Inr op0\<close> Some z
        have "y = retrieveVideo w operation' (snd z)"
          by (simp add: tryBlock_def)
        with sz have "sleeps (snd y) = replicate n 5000 \<and> fetches (snd y) = n"
          by (simp add: retrieveVideo_sleeps retrieveVideo_fetches)
        then show ?thesis by blast
      qed
    qed
  qed
qed

subsection \<open>Whole runs\<close>

lemma tryBlock_None_iff:
  "tryBlock w imageDataUrl = None \<longleftrightarrow>
     (\<exists>b m op0. dataUrlParts imageDataUrl = Some (b, m) \<and> generateVideos w = Inr op0 \<and>
        pollLoop w 0 op0 [GenerateVideos b m] = None)"
  by (auto simp: tryBlock_def split: option.splits sum.splits prod.splits)

lemma pollLoop_None_iff:
  "pollLoop w k operation tr = None \<longleftrightarrow>
     \<not> op_done operation \<and> (\<forall>n. \<not> settles (getVideosOperation w (k + n)))"
proof
  assume none: "pollLoop w k operation tr = None"
  have "\<not> op_done operation"
    using none pollLoop_done [of operation w k tr] by auto
  moreover have "\<not> settles (getVideosOperation w (k + n))" for n
    using none pollLoop_terminates [of w k n operation tr] by auto
  ultimately show "\<not> op_done operation \<and> (\<forall>n. \<not> settles (getVideosOperation w (k + n)))"
    by blast
next
  assume a: "\<not> op_done operation \<and> (\<forall>n. \<not> settles (getVideosOperation w (k + n)))"
  show "pollLoop w k operation tr = None"
  proof (rule ccontr)
    assume "pollLoop w k operation tr \<noteq> None"
    then obtain y where "pollLoop w k operation tr = Some y" by auto
    from pollLoop_Some_settles [OF this] a show False by blast
  qed
qed

lemma run_doneAfter:
  assumes "dataUrlParts imageDataUrl = Some (b, m)" and "doneAfter w N operation"
  shows "generateTurnaroundVideo w imageDataUrl =
           Some (catchBlock (retrieveVideo w operation (GenerateVideos b m # rounds N)))"
  using tryBlock_doneAfter [OF assms] by (simp add: generateTurnaroundVideo_def)

lemma catch_download:
  "catchBlock (downloadVideo w u tr) =
     (case fetch w of
        Inl e \<Rightarrow> (Inl (rethrown e), tr @ [Fetch (u @ ''&key='' @ API_KEY w), ConsoleError e])
      | Inr h \<Rightarrow>
          if \<not> ok h
          then (Inl (newError (''Failed to download video: '' @ statusText h)),
                tr @ [Fetch (u @ ''&key='' @ API_KEY w),
                      ConsoleError (newError (''Failed to download video: '' @ statusText h))])
          else (case blob h of
                  Inl e \<Rightarrow> (Inl (rethrown e), tr @ [Fetch (u @ ''&key='' @ API_KEY w), ConsoleError e])
                | Inr bl \<Rightarrow> (Inr (createObjectURL w bl), tr @ [Fetch (u @ ''&key='' @ API_KEY w)])))"
  by (simp add: downloadVideo_def Let_def rethrown_def newError_def split: sum.splits)

lemma catch_retrieve_tail:
  "\<exists>r tl. catchBlock (retrieveVideo w operation tr) = (r, tr @ tl) \<and> sleeps tl = [] \<and> fetches tl = 0"
proof (cases "extractVideoUri operation")
  case (Inl e)
  then have "catchBlock (retrieveVideo w operation tr) = (Inl (rethrown e), tr @ [ConsoleError e])"
    by (simp add: retrieveVideo_def)
  moreover have "sleeps [ConsoleError e] = [] \<and> fetches [ConsoleError e] = 0"
    by (simp add: fetches_Cons fetches_Nil)
  ultimately show ?thesis by blast
next
  case (Inr u)
  obtain r tr' where c: "catchBlock (downloadVideo w u tr) = (r, tr')"
    by (cases "catchBlock (downloadVideo w u tr)")
  have "\<exists>tl. tr' = tr @ tl \<and> sleeps tl = [] \<and> fetches tl = 0"
    using c unfolding catch_download
    by (auto simp: fetches_Cons fetches_Nil split: sum.splits if_splits)
  with Inr c show ?thesis
    by (auto simp: retrieveVideo_def)
qed

lemma catch_retrieve_success:
  assumes "videoUriOf operation = Some u" and "u \<noteq> []"
    and "fetch w = Inr h" and "ok h" and "blob h = Inr bl"
  shows "catchBlock (retrieveVideo w operation tr) =
           (Inr (createObjectURL w bl), tr @ [Fetch (u @ ''&key='' @ API_KEY w)])"
  using assms by (simp add: retrieveVideo_def extractVideoUri_def catch_download)

lemma run_raisesAfter:
  assumes "dataUrlParts imageDataUrl = Some (b, m)" and "raisesAfter w N e"
  shows "generateTurnaroundVideo w imageDataUrl =
           Some (Inl (rethrown e), GenerateVideos b m # rounds N @ [ConsoleError e])"
  using tryBlock_raisesAfter [OF assms] by (simp add: generateTurnaroundVideo_def)

lemma pollLoop_error_origin:
  "pollLoop w k operation tr = Some y \<Longrightarrow> \<forall>e. fst y = Inl e \<longrightarrow> (\<exists>j. getVideosOperation w j = Inl e)"
proof (induct rule: pollLoop_induct)
  case (step f w k operation tr y)
  show ?case
  proof (cases "op_done operation")
    case True
    with step(2) show ?thesis by auto
  next
    case False
    show ?thesis
    proof (cases "getVideosOperation w k")
      case (Inl e)
      with False step(2) have "fst y = Inl e" by auto
      with Inl show ?thesis by auto
    next
      case (Inr o')
      with False step(2) have "f w (Suc k) o' (tr @ [Sleep 5000, GetVideosOperation]) = Some y"
        by simp
      from step(1) [OF this] show ?thesis .
    qed
  qed
qed

lemma retrieveVideo_error_origin:
  assumes "retrieveVideo w operation tr = (Inl e, tr')"
  shows "e = newError ''No video URI in response'' \<or> fetch w = Inl e \<or>
         (\<exists>h. fetch w = Inr h \<and>
            (e = newError (''Failed to download video: '' @ statusText h) \<or> blob h = Inl e))"
  using assms
  by (auto simp: retrieveVideo_def extractVideoUri_def downloadVideo_def Let_def
      split: option.splits sum.splits if_splits)

lemma tryBlock_error_origin:
  assumes "tryBlock w imageDataUrl = Some (Inl e, tr)"
  shows "(dataUrlParts imageDataUrl = None \<and> e = \<lparr>name = ''TypeError'', message = typeErrorMessage w\<rparr>) \<or>
         generateVideos w = Inl e \<or> (\<exists>k. getVideosOperation w k = Inl e) \<or>
         e = newError ''No video URI in response'' \<or> fetch w = Inl e \<or>
         (\<exists>h. fetch w = Inr h \<and>
            (e = newError (''Failed to download video: '' @ statusText h) \<or> blob h = Inl e))"
proof (cases "dataUrlParts imageDataUrl")
  case None
  with assms show ?thesis by (simp add: tryBlock_def)
next
  case (Some bm)
  obtain b m where bm: "bm = (b, m)" by (cases bm)
  show ?thesis
  proof (cases "generateVideos w")
    case (Inl e0)
    with assms Some bm show ?thesis by (simp add: tryBlock_def)
  next
    case (Inr op0)
    show ?thesis
    proof (cases "pollLoop w 0 op0 [GenerateVideos b m]")
      case None
      with assms Some bm Inr show ?thesis by (simp add: tryBlock_def)
    next
      case (Some z)
      obtain r tr1 where z: "z = (r, tr1)" by (cases z)
      show ?thesis
      proof (cases r)
        case (Inl e1)
        with assms \<open>dataUrlParts imageDataUrl = Some bm\<close> bm \<open>generateVideos w = Inr op0\<close> Some z
        have "e1 = e" by (simp add: tryBlock_def)
        with pollLoop_error_origin [OF Some] z Inl show ?thesis by auto
      next
        case (Inr operation')
        with assms \<open>dataUrlParts imageDataUrl = Some bm\<close> bm \<open>generateVideos w = Inr op0\<close> Some z
        have "retrieveVideo w operation' tr1 = (Inl e, tr)" by (simp add: tryBlock_def)
        from retrieveVideo_error_origin [OF this] show ?thesis by blast
      qed
    qed
  qed
qed

lemma rethrown_newError: "m \<noteq> [] \<Longrightarrow> rethrown (newError m) = newError m"
  by (simp add: rethrown_def newError_def)

lemma run_parse_error:
  "dataUrlParts imageDataUrl = None \<Longrightarrow>
   generateTurnaroundVideo w imageDataUrl =
     Some (Inl (rethrown \<lparr>name = ''TypeError'', message = typeErrorMessage w\<rparr>),
           [ConsoleError \<lparr>name = ''TypeError'', message = typeErrorMessage w\<rparr>])"
  by (simp add: generateTurnaroundVideo_def tryBlock_def)

lemma run_done_cases:
  assumes "dataUrlParts imageDataUrl = Some (b, m)" and "doneAfter w N operation"
  shows "case videoUriOf operation of
           None \<Rightarrow>
             generateTurnaroundVideo w imageDataUrl =
               Some (Inl (newError ''No video URI in response''),
                     GenerateVideos b m # rounds N @ [ConsoleError (newError ''No video URI in response'')])
         | Some u \<Rightarrow>
             if u = []
             then generateTurnaroundVideo w imageDataUrl =
                    Some (Inl (newError ''No video URI in response''),
                          GenerateVideos b m # rounds N @
                            [ConsoleError (newError ''No video URI in response'')])
             else (case fetch w of
                     Inl e \<Rightarrow>
                       generateTurnaroundVideo w imageDataUrl =
                         Some (Inl (rethrown e),
                               GenerateVideos b m # rounds N @
                                 [Fetch (u @ ''&key='' @ API_KEY w), ConsoleError e])
                   | Inr h \<Rightarrow>
                       if \<not> ok h
                       then generateTurnaroundVideo w imageDataUrl =
                              Some (Inl (newError (''Failed to download video: '' @ statusText h)),
                                    GenerateVideos b m # rounds N @
                                      [Fetch (u @ ''&key='' @ API_KEY w),
                                       ConsoleError (newError (''Failed to download video: '' @ statusText h))])
                       else (case blob h of
                               Inl e \<Rightarrow>
                                 generateTurnaroundVideo w imageDataUrl =
                                   Some (Inl (rethrown e),
                                         GenerateVideos b m # rounds N @
                                           [Fetch (u @ ''&key='' @ API_KEY w), ConsoleError e])
                             | Inr bl \<Rightarrow>
                                 generateTurnaroundVideo w imageDataUrl =
                                   Some (Inr (createObjectURL w bl),
                                         GenerateVideos b m # rounds N @
                                           [Fetch (u @ ''&key='' @ API_KEY w)])))"
  unfolding run_doneAfter [OF assms]
  by (simp add: retrieveVideo_def extractVideoUri_def catch_download rethrown_newError
      split: option.splits sum.splits)

lemma run_error_origin:
  assumes "generateTurnaroundVideo w imageDataUrl = Some (Inl e', tr')"
  shows "\<exists>e tr. tr' = tr @ [ConsoleError e] \<and> e' = rethrown e \<and>
           ((dataUrlParts imageDataUrl = None \<and>
               e = \<lparr>name = ''TypeError'', message = typeErrorMessage w\<rparr>) \<or>
            generateVideos w = Inl e \<or> (\<exists>k. getVideosOperation w k = Inl e) \<or>
            e = newError ''No video URI in response'' \<or> fetch w = Inl e \<or>
            (\<exists>h. fetch w = Inr h \<and>
               (e = newError (''Failed to download video: '' @ statusText h) \<or> blob h = Inl e)))"
proof -
  from assms obtain y where y: "tryBlock w imageDataUrl = Some y" and c: "catchBlock y = (Inl e', tr')"
    by (auto simp: generateTurnaroundVideo_def)
  from c obtain e tr where e: "y = (Inl e, tr)" "e' = rethrown e" "tr' = tr @ [ConsoleError e]"
    by (cases y rule: catchBlock.cases) auto
  from y e(1) have t: "tryBlock w imageDataUrl = Some (Inl e, tr)" by simp
  from tryBlock_error_origin [OF t] e(2,3) show ?thesis
    by blast
qed

section \<open>The claims\<close>

text \<open>
  Throughout, every awaited call of the world settles: \<open>generateVideos\<close>, each
  \<open>getVideosOperation\<close>, \<open>fetch\<close> and \<open>blob\<close> answer with a value or an error, and a
  suspension ends. A call of \<open>generateTurnaroundVideo\<close> can then fail to settle only by
  polling forever. The claims about runs that reach the provider are stated for
  \<open>generateTurnaroundVideo\<close>, the call in a world where the client exists; the claim about
  the errors the caller receives is stated for \<open>generateTurnaroundVideoFrom\<close>, so that it
  covers the error of \<open>getAI()\<close> as well.
\<close>

subsection \<open>C1: suspensions before the job is done\<close>

text \<open>
  Claim C1, amended. When the job first reports \<open>done\<close> on the N-th status fetch
  (\<open>N \<ge> 1\<close>), the call settles after exactly \<open>N\<close> suspensions of 5000 ms each, every
  suspension immediately before its status fetch: the events are the creation request, then
  \<open>N\<close> times a suspension followed by a status fetch, then a tail with no suspension and no
  status fetch, and the time suspended is \<open>N * 5000\<close> ms. What the call resolves to is not
  the video URI itself: with a non-empty URI \<open>u\<close> and a download that succeeds, the tail
  is the one request for \<open>u\<close> with the key appended and the call resolves to the object
  URL of the downloaded blob.
\<close>

theorem poll_suspensions:
  assumes "dataUrlParts imageDataUrl = Some (b, m)" and "0 < N" and "doneAfter w N operation"
  shows "\<exists>r tl. generateTurnaroundVideo w imageDataUrl = Some (r, GenerateVideos b m # rounds N @ tl)
           \<and> sleeps (rounds N) = replicate N 5000 \<and> sleeps tl = [] \<and> fetches tl = 0
           \<and> suspended (GenerateVideos b m # rounds N @ tl) = N * 5000
           \<and> (\<forall>u h bl. videoUriOf operation = Some u \<and> u \<noteq> [] \<and>
                 fetch w = Inr h \<and> ok h \<and> blob h = Inr bl \<longrightarrow>
                 r = Inr (createObjectURL w bl) \<and> tl = [Fetch (u @ ''&key='' @ API_KEY w)])"
proof -
  let ?tr = "GenerateVideos b m # rounds N"
  from catch_retrieve_tail [of w operation ?tr] obtain r tl where
    c: "catchBlock (retrieveVideo w operation ?tr) = (r, ?tr @ tl)"
    and tl: "sleeps tl = []" "fetches tl = 0"
    by blast
  have run: "generateTurnaroundVideo w imageDataUrl = Some (r, GenerateVideos b m # rounds N @ tl)"
    using run_doneAfter [OF assms(1,3)] c by simp
  have susp: "suspended (GenerateVideos b m # rounds N @ tl) = N * 5000"
    using tl(1) by (simp add: suspended_def sleeps_append sleeps_rounds sum_list_replicate)
  have res: "r = Inr (createObjectURL w bl) \<and> tl = [Fetch (u @ ''&key='' @ API_KEY w)]"
    if "videoUriOf operation = Some u \<and> u \<noteq> [] \<and> fetch w = Inr h \<and> ok h \<and> blob h = Inr bl"
    for u h bl
    using catch_retrieve_success [of operation u w h bl ?tr] that c by simp
  from run tl susp res show ?thesis
    by (auto simp: sleeps_rounds)
qed

text \<open>
  The scenario of the specification: the created job and the first status fetch are not
  done, the second fetch is done with the URI \<open>X\<close>. Two suspensions, 10000 ms in all.
\<close>

theorem poll_suspensions_witness:
  "dataUrlParts ''data:image/png;base64,AAAA'' = Some (Some ''AAAA'', ''image/png'')
   \<and> doneAfter (worldOf (Inr pendingJob) (answersOf [Inr pendingJob, Inr (finishedJob ''X'')]) (Inr okResponse))
         2 (finishedJob ''X'')
   \<and> generateTurnaroundVideo
         (worldOf (Inr pendingJob) (answersOf [Inr pendingJob, Inr (finishedJob ''X'')]) (Inr okResponse))
         ''data:image/png;base64,AAAA''
       = Some (Inr ''blob:video'',
            [GenerateVideos (Some ''AAAA'') ''image/png'', Sleep 5000, GetVideosOperation,
             Sleep 5000, GetVideosOperation, Fetch ''X&key=KEY''])
   \<and> suspended [GenerateVideos (Some ''AAAA'') ''image/png'', Sleep 5000, GetVideosOperation,
             Sleep 5000, GetVideosOperation, Fetch ''X&key=KEY''] = 10000"
proof -
  let ?w = "worldOf (Inr pendingJob) (answersOf [Inr pendingJob, Inr (finishedJob ''X'')]) (Inr okResponse)"
  have p: "dataUrlParts ''data:image/png;base64,AAAA'' = Some (Some ''AAAA'', ''image/png'')"
    by (simp add: dataUrlParts_def at_index_def)
  have d: "doneAfter ?w 2 (finishedJob ''X'')"
    by (simp add: numeral_2_eq_2 worldOf_def answersOf_def settles_def pendingJob_def finishedJob_def)
  have u: "videoUriOf (finishedJob ''X'') = Some ''X'' \<and> ''X'' \<noteq> [] \<and> fetch ?w = Inr okResponse
      \<and> ok okResponse \<and> blob okResponse = Inr ''video''"
    by (simp add: videoUriOf_def finishedJob_def at_index_def worldOf_def okResponse_def)
  have k: "createObjectURL ?w ''video'' = ''blob:video''" "API_KEY ?w = ''KEY''"
    by (simp_all add: worldOf_def)
  from poll_suspensions [OF p _ d] obtain r tl where
    run: "generateTurnaroundVideo ?w ''data:image/png;base64,AAAA''
            = Some (r, GenerateVideos (Some ''AAAA'') ''image/png'' # rounds 2 @ tl)"
    and s: "suspended (GenerateVideos (Some ''AAAA'') ''image/png'' # rounds 2 @ tl) = 2 * 5000"
    and res: "\<forall>u h bl. videoUriOf (finishedJob ''X'') = Some u \<and> u \<noteq> [] \<and>
                 fetch ?w = Inr h \<and> ok h \<and> blob h = Inr bl \<longrightarrow>
                 r = Inr (createObjectURL ?w bl) \<and> tl = [Fetch (u @ ''&key='' @ API_KEY ?w)]"
    by auto
  from res u have "r = Inr (createObjectURL ?w ''video'') \<and> tl = [Fetch (''X'' @ ''&key='' @ API_KEY ?w)]"
    by blast
  with k have "r = Inr ''blob:video'' \<and> tl = [Fetch ''X&key=KEY'']"
    by simp
  with run s p d show ?thesis
    by (simp add: rounds_def numeral_2_eq_2)
qed

text \<open>
  As first stated, the claim has the scenario resolve to \<open>X\<close>. The call downloads \<open>X\<close> and
  resolves to the object URL of the blob instead.
\<close>

theorem poll_suspensions_counterexample:
  "doneAfter (worldOf (Inr pendingJob) (answersOf [Inr pendingJob, Inr (finishedJob ''X'')]) (Inr okResponse))
         2 (finishedJob ''X'')
   \<and> videoUriOf (finishedJob ''X'') = Some ''X''
   \<and> generateTurnaroundVideo
         (worldOf (Inr pendingJob) (answersOf [Inr pendingJob, Inr (finishedJob ''X'')]) (Inr okResponse))
         ''data:image/png;base64,AAAA''
       = Some (Inr ''blob:video'',
            [GenerateVideos (Some ''AAAA'') ''image/png'', Sleep 5000, GetVideosOperation,
             Sleep 5000, GetVideosOperation, Fetch ''X&key=KEY''])
   \<and> ''blob:video'' \<noteq> ''X''"
  by (simp add: numeral_2_eq_2 generateTurnaroundVideo_def tryBlock_def dataUrlParts_def at_index_def
      worldOf_def answersOf_def settles_def pendingJob_def finishedJob_def okResponse_def pollLoop.simps
      retrieveVideo_def extractVideoUri_def videoUriOf_def downloadVideo_def)

subsection \<open>C2: the result of a finished job\<close>

text \<open>
  Claim C2, amended. As soon as a status fetch (the N-th, \<open>N \<ge> 1\<close>) returns a job that is
  done and carries a non-empty video URI \<open>u\<close>, no further status fetch is made: the
  run has exactly \<open>N\<close> of them, and the next event is the download request for exactly \<open>u\<close>
  with \<open>&key=\<close> and the API key appended. The call then resolves with the object URL of the
  downloaded blob when the download succeeds; when \<open>fetch\<close> or \<open>blob\<close> raises it rejects with
  that error rethrown, and when the response is not \<open>ok\<close> it rejects with
  \<open>Failed to download video:\<close> and the status text.
\<close>

theorem result_downloaded:
  assumes "dataUrlParts imageDataUrl = Some (b, m)" and "0 < N" and "doneAfter w N operation"
    and "videoUriOf operation = Some u" and "u \<noteq> []"
  shows "\<exists>r tl. generateTurnaroundVideo w imageDataUrl =
             Some (r, GenerateVideos b m # rounds N @ Fetch (u @ ''&key='' @ API_KEY w) # tl)
           \<and> fetches (GenerateVideos b m # rounds N @ Fetch (u @ ''&key='' @ API_KEY w) # tl) = N
           \<and> (case fetch w of
                 Inl e \<Rightarrow> r = Inl (rethrown e) \<and> tl = [ConsoleError e]
               | Inr h \<Rightarrow>
                   if \<not> ok h
                   then r = Inl (newError (''Failed to download video: '' @ statusText h)) \<and>
                        tl = [ConsoleError (newError (''Failed to download video: '' @ statusText h))]
                   else (case blob h of
                           Inl e \<Rightarrow> r = Inl (rethrown e) \<and> tl = [ConsoleError e]
                         | Inr bl \<Rightarrow> r = Inr (createObjectURL w bl) \<and> tl = []))"
proof -
  let ?tr = "GenerateVideos b m # rounds N"
  have "extractVideoUri operation = Inr u"
    using assms(4,5) by (simp add: extractVideoUri_def)
  then have run: "generateTurnaroundVideo w imageDataUrl = Some (catchBlock (downloadVideo w u ?tr))"
    using run_doneAfter [OF assms(1,3)] by (simp add: retrieveVideo_def)
  show ?thesis
    unfolding run catch_download
    by (simp add: fetches_Cons fetches_append fetches_rounds fetches_Nil split: sum.splits)
qed

theorem result_downloaded_witness:
  "dataUrlParts ''data:image/png;base64,AAAA'' = Some (Some ''AAAA'', ''image/png'')
   \<and> doneAfter (worldOf (Inr pendingJob) (answersOf [Inr (finishedJob ''https://v/1?alt=media'')]) (Inr okResponse))
         1 (finishedJob ''https://v/1?alt=media'')
   \<and> generateTurnaroundVideo
         (worldOf (Inr pendingJob) (answersOf [Inr (finishedJob ''https://v/1?alt=media'')]) (Inr okResponse))
         ''data:image/png;base64,AAAA''
       = Some (Inr ''blob:video'',
            [GenerateVideos (Some ''AAAA'') ''image/png'', Sleep 5000, GetVideosOperation,
             Fetch ''https://v/1?alt=media&key=KEY''])"
proof -
  let ?u = "''https://v/1?alt=media''"
  let ?w = "worldOf (Inr pendingJob) (answersOf [Inr (finishedJob ?u)]) (Inr okResponse)"
  have p: "dataUrlParts ''data:image/png;base64,AAAA'' = Some (Some ''AAAA'', ''image/png'')"
    by (simp add: dataUrlParts_def at_index_def)
  have d: "doneAfter ?w 1 (finishedJob ?u)"
    by (simp add: worldOf_def answersOf_def settles_def pendingJob_def finishedJob_def)
  have u: "videoUriOf (finishedJob ?u) = Some ?u"
    by (simp add: videoUriOf_def finishedJob_def at_index_def)
  have n: "?u \<noteq> []" by simp
  from result_downloaded [OF p _ d u n] p d show ?thesis
    by (simp add: rounds_def worldOf_def okResponse_def)
qed

text \<open>
  As first stated, the claim has the call resolve with exactly the job's result. With the
  result \<open>X\<close> and a download answered \<open>Forbidden\<close>, the call rejects.
\<close>

theorem result_downloaded_counterexample:
  "doneAfter
     (worldOf (Inr pendingJob) (answersOf [Inr (finishedJob ''X'')])
        (Inr \<lparr>ok = False, statusText = ''Forbidden'', blob = Inr []\<rparr>))
     1 (finishedJob ''X'')
   \<and> videoUriOf (finishedJob ''X'') = Some ''X''
   \<and> generateTurnaroundVideo
       (worldOf (Inr pendingJob) (answersOf [Inr (finishedJob ''X'')])
          (Inr \<lparr>ok = False, statusText = ''Forbidden'', blob = Inr []\<rparr>))
       ''data:image/png;base64,AAAA''
     = Some (Inl \<lparr>name = ''Error'', message = ''Failed to download video: Forbidden''\<rparr>,
          [GenerateVideos (Some ''AAAA'') ''image/png'', Sleep 5000, GetVideosOperation,
           Fetch ''X&key=KEY'',
           ConsoleError \<lparr>name = ''Error'', message = ''Failed to download video: Forbidden''\<rparr>])"
  by (simp add: generateTurnaroundVideo_def tryBlock_def dataUrlParts_def at_index_def
      worldOf_def answersOf_def settles_def pendingJob_def finishedJob_def pollLoop.simps
      retrieveVideo_def extractVideoUri_def videoUriOf_def downloadVideo_def rethrown_def newError_def)

subsection \<open>C3: a finished job without a result\<close>

text \<open>
  Claim C3. If the job reports \<open>done\<close> (at creation, \<open>N = 0\<close>, or on the N-th status fetch)
  and carries no video URI, or an empty one, the call rejects with the error
  \<open>No video URI in response\<close>: it neither resolves nor polls again, since the events are the
  creation request, the \<open>N\<close> rounds of polling and the console log of that error. This holds
  whatever the error payload of the job, so in particular when there is none.
\<close>

theorem missing_result:
  assumes "dataUrlParts imageDataUrl = Some (b, m)"
    and "doneAfter w N operation"
    and "videoUriOf operation = None \<or> videoUriOf operation = Some []"
  shows "generateTurnaroundVideo w imageDataUrl =
           Some (Inl \<lparr>name = ''Error'', message = ''No video URI in response''\<rparr>,
                 GenerateVideos b m # rounds N @
                   [ConsoleError \<lparr>name = ''Error'', message = ''No video URI in response''\<rparr>])"
proof -
  from assms(3) have "extractVideoUri operation = Inl (newError ''No video URI in response'')"
    by (auto simp: extractVideoUri_def)
  then show ?thesis
    using tryBlock_doneAfter [OF assms(1,2)]
    by (simp add: generateTurnaroundVideo_def retrieveVideo_def rethrown_def newError_def)
qed

theorem missing_result_witness:
  "doneAfter (worldOf (Inr pendingJob) (answersOf [Inr pendingJob, Inr emptyJob]) (Inr okResponse)) 2 emptyJob
   \<and> videoUriOf emptyJob = None \<and> op_error emptyJob = None
   \<and> generateTurnaroundVideo
       (worldOf (Inr pendingJob) (answersOf [Inr pendingJob, Inr emptyJob]) (Inr okResponse))
       ''data:image/png;base64,AAAA''
     = Some (Inl \<lparr>name = ''Error'', message = ''No video URI in response''\<rparr>,
          [GenerateVideos (Some ''AAAA'') ''image/png'', Sleep 5000, GetVideosOperation,
           Sleep 5000, GetVideosOperation,
           ConsoleError \<lparr>name = ''Error'', message = ''No video URI in response''\<rparr>])"
proof -
  let ?w = "worldOf (Inr pendingJob) (answersOf [Inr pendingJob, Inr emptyJob]) (Inr okResponse)"
  have p: "dataUrlParts ''data:image/png;base64,AAAA'' = Some (Some ''AAAA'', ''image/png'')"
    by (simp add: dataUrlParts_def at_index_def)
  have d: "doneAfter ?w (Suc (Suc 0)) emptyJob"
    by (simp add: worldOf_def answersOf_def settles_def pendingJob_def emptyJob_def)
  have u: "videoUriOf emptyJob = None \<or> videoUriOf emptyJob = Some []"
    by (simp add: videoUriOf_def emptyJob_def)
  from missing_result [OF p d u] d u show ?thesis
    by (simp add: rounds_def numeral_2_eq_2 videoUriOf_def emptyJob_def)
qed

subsection \<open>C4: an error of the provider\<close>

text \<open>
  Claim C4, amended. If \<open>generateVideos\<close> raises (\<open>N = 0\<close>), or the N-th status fetch raises
  after \<open>N - 1\<close> answers that were not done, the call rejects at once: the events are the
  creation request, \<open>N\<close> rounds of polling and the console log of the error, so no further
  creation request or status fetch follows and nothing is retried. The error the caller
  receives is a fresh \<open>Error\<close> carrying the message of the error raised, or
  \<open>Failed to generate video.\<close> when that message is empty.
\<close>

theorem call_error_ends_run:
  assumes "dataUrlParts imageDataUrl = Some (b, m)" and "raisesAfter w N e"
  shows "generateTurnaroundVideo w imageDataUrl =
           Some (Inl \<lparr>name = ''Error'',
                      message = (if message e = [] then ''Failed to generate video.'' else message e)\<rparr>,
                 GenerateVideos b m # rounds N @ [ConsoleError e])"
  using run_raisesAfter [OF assms] by (simp add: rethrown_def newError_def)

theorem call_error_ends_run_witness:
  "dataUrlParts ''data:image/png;base64,AAAA'' = Some (Some ''AAAA'', ''image/png'')
   \<and> raisesAfter
        (worldOf (Inr pendingJob)
           (answersOf [Inr pendingJob, Inl \<lparr>name = ''ApiError'', message = ''503 unavailable''\<rparr>,
                       Inr (finishedJob ''X'')])
           (Inr okResponse))
        2 \<lparr>name = ''ApiError'', message = ''503 unavailable''\<rparr>
   \<and> generateTurnaroundVideo
        (worldOf (Inr pendingJob)
           (answersOf [Inr pendingJob, Inl \<lparr>name = ''ApiError'', message = ''503 unavailable''\<rparr>,
                       Inr (finishedJob ''X'')])
           (Inr okResponse))
        ''data:image/png;base64,AAAA''
      = Some (Inl \<lparr>name = ''Error'', message = ''503 unavailable''\<rparr>,
           [GenerateVideos (Some ''AAAA'') ''image/png'', Sleep 5000, GetVideosOperation,
            Sleep 5000, GetVideosOperation,
            ConsoleError \<lparr>name = ''ApiError'', message = ''503 unavailable''\<rparr>])"
proof -
  let ?e = "\<lparr>name = ''ApiError'', message = ''503 unavailable''\<rparr>"
  let ?w = "worldOf (Inr pendingJob) (answersOf [Inr pendingJob, Inl ?e, Inr (finishedJob ''X'')])
              (Inr okResponse)"
  have p: "dataUrlParts ''data:image/png;base64,AAAA'' = Some (Some ''AAAA'', ''image/png'')"
    by (simp add: dataUrlParts_def at_index_def)
  have r: "raisesAfter ?w 2 ?e"
    by (simp add: numeral_2_eq_2 worldOf_def answersOf_def settles_def pendingJob_def)
  from call_error_ends_run [OF p r] p r show ?thesis
    by (simp add: rounds_def numeral_2_eq_2)
qed

text \<open>
  As first stated, the claim has the call fail with the very error that was raised. When
  the first status fetch raises an \<open>ApiError\<close> with an empty message, the caller receives an
  \<open>Error\<close> with the message \<open>Failed to generate video.\<close>
\<close>

theorem call_error_ends_run_counterexample:
  "raisesAfter
     (worldOf (Inr pendingJob) (answersOf [Inl \<lparr>name = ''ApiError'', message = []\<rparr>]) (Inr okResponse))
     1 \<lparr>name = ''ApiError'', message = []\<rparr>
   \<and> generateTurnaroundVideo
       (worldOf (Inr pendingJob) (answersOf [Inl \<lparr>name = ''ApiError'', message = []\<rparr>]) (Inr okResponse))
       ''data:image/png;base64,AAAA''
     = Some (Inl \<lparr>name = ''Error'', message = ''Failed to generate video.''\<rparr>,
          [GenerateVideos (Some ''AAAA'') ''image/png'', Sleep 5000, GetVideosOperation,
           ConsoleError \<lparr>name = ''ApiError'', message = []\<rparr>])
   \<and> \<lparr>name = ''Error'', message = ''Failed to generate video.''\<rparr>
       \<noteq> \<lparr>name = ''ApiError'', message = []\<rparr>"
  by (simp add: generateTurnaroundVideo_def tryBlock_def dataUrlParts_def at_index_def
      worldOf_def answersOf_def settles_def pendingJob_def pollLoop.simps rethrown_def newError_def)

subsection \<open>C5: no timeout\<close>

text \<open>
  Claim C5, amended. The call takes no \<open>timeoutMs\<close> and has no timeout. For a job that
  first reports \<open>done\<close> on the N-th status fetch, and any bound \<open>timeoutMs < N * 5000\<close>, the
  call still makes all \<open>N\<close> status fetches and is suspended for \<open>N * 5000\<close> ms, more than
  the bound; it then settles as reading and downloading the result of that job decide.
\<close>

theorem no_timeout:
  assumes "dataUrlParts imageDataUrl = Some (b, m)" and "doneAfter w N operation"
    and "timeoutMs < N * 5000"
  shows "\<exists>r tr. generateTurnaroundVideo w imageDataUrl = Some (r, tr)
           \<and> (r, tr) = catchBlock (retrieveVideo w operation (GenerateVideos b m # rounds N))
           \<and> fetches tr = N \<and> suspended tr = N * 5000 \<and> timeoutMs < suspended tr"
proof -
  let ?tr = "GenerateVideos b m # rounds N"
  from catch_retrieve_tail [of w operation ?tr] obtain r tl where
    c: "catchBlock (retrieveVideo w operation ?tr) = (r, ?tr @ tl)"
    and tl: "sleeps tl = []" "fetches tl = 0"
    by blast
  have "generateTurnaroundVideo w imageDataUrl = Some (r, ?tr @ tl)"
    using run_doneAfter [OF assms(1,2)] c by simp
  moreover have "fetches (?tr @ tl) = N"
    using tl(2) by (simp add: fetches_Cons fetches_append fetches_rounds)
  moreover have "suspended (?tr @ tl) = N * 5000"
    using tl(1) by (simp add: suspended_def sleeps_append sleeps_rounds sum_list_replicate)
  ultimately show ?thesis
    using c assms(3) by auto
qed

theorem no_timeout_witness:
  "dataUrlParts ''data:image/png;base64,AAAA'' = Some (Some ''AAAA'', ''image/png'')
   \<and> doneAfter
        (worldOf (Inr pendingJob) (answersOf [Inr pendingJob, Inr pendingJob, Inr emptyJob]) (Inr okResponse))
        3 emptyJob
   \<and> (14999::nat) < 3 * 5000
   \<and> (\<exists>r tr. generateTurnaroundVideo
          (worldOf (Inr pendingJob) (answersOf [Inr pendingJob, Inr pendingJob, Inr emptyJob]) (Inr okResponse))
          ''data:image/png;base64,AAAA'' = Some (r, tr)
        \<and> fetches tr = 3 \<and> suspended tr = 15000)"
proof -
  let ?w = "worldOf (Inr pendingJob) (answersOf [Inr pendingJob, Inr pendingJob, Inr emptyJob]) (Inr okResponse)"
  have p: "dataUrlParts ''data:image/png;base64,AAAA'' = Some (Some ''AAAA'', ''image/png'')"
    by (simp add: dataUrlParts_def at_index_def)
  have d: "doneAfter ?w 3 emptyJob"
    by (simp add: numeral_3_eq_3 worldOf_def answersOf_def settles_def pendingJob_def emptyJob_def)
  have t: "(14999::nat) < 3 * 5000" by simp
  from no_timeout [OF p d t] obtain r tr where
    "generateTurnaroundVideo ?w ''data:image/png;base64,AAAA'' = Some (r, tr)"
    "fetches tr = 3" "suspended tr = 3 * 5000"
    by blast
  with p d t show ?thesis by auto
qed

text \<open>
  As first stated, the claim has a call with \<open>timeoutMs = 7000\<close> fail before the second
  status fetch of a job that is done on that fetch. The call makes both fetches, is suspended
  for 10000 ms and resolves.
\<close>

theorem no_timeout_counterexample:
  "(7000::nat) < 2 * 5000
   \<and> doneAfter
       (worldOf (Inr pendingJob) (answersOf [Inr pendingJob, Inr (finishedJob ''V'')]) (Inr okResponse))
       2 (finishedJob ''V'')
   \<and> generateTurnaroundVideo
       (worldOf (Inr pendingJob) (answersOf [Inr pendingJob, Inr (finishedJob ''V'')]) (Inr okResponse))
       ''data:image/png;base64,AAAA''
     = Some (Inr ''blob:video'',
          [GenerateVideos (Some ''AAAA'') ''image/png'', Sleep 5000, GetVideosOperation,
           Sleep 5000, GetVideosOperation, Fetch ''V&key=KEY''])"
  by (simp add: numeral_2_eq_2 generateTurnaroundVideo_def tryBlock_def dataUrlParts_def at_index_def
      worldOf_def answersOf_def settles_def pendingJob_def finishedJob_def okResponse_def pollLoop.simps
      retrieveVideo_def extractVideoUri_def videoUriOf_def downloadVideo_def)

subsection \<open>C6: termination\<close>

text \<open>
  Claim C6. The call never settles exactly when the data URL parses, \<open>generateVideos\<close>
  returns a job that is not done, and every status fetch returns a job that is not done.
  So it settles, resolving or rejecting, whenever some status fetch would return a job that
  is done or raise an error, and it polls forever when every status fetch returns a job that
  is not done: there is no timeout and no cancellation.
\<close>

theorem settles_iff:
  "generateTurnaroundVideo w imageDataUrl = None \<longleftrightarrow>
     dataUrlParts imageDataUrl \<noteq> None \<and> \<not> settles (generateVideos w) \<and>
     (\<forall>k. \<not> settles (getVideosOperation w k))"
proof -
  have "generateTurnaroundVideo w imageDataUrl = None \<longleftrightarrow> tryBlock w imageDataUrl = None"
    by (simp add: generateTurnaroundVideo_def)
  also have "\<dots> \<longleftrightarrow> (\<exists>b m op0. dataUrlParts imageDataUrl = Some (b, m) \<and> generateVideos w = Inr op0 \<and>
        \<not> op_done op0 \<and> (\<forall>n. \<not> settles (getVideosOperation w n)))"
    by (simp add: tryBlock_None_iff pollLoop_None_iff)
  also have "\<dots> \<longleftrightarrow> dataUrlParts imageDataUrl \<noteq> None \<and> \<not> settles (generateVideos w) \<and>
     (\<forall>k. \<not> settles (getVideosOperation w k))"
    by (cases "generateVideos w") (auto simp: settles_def)
  finally show ?thesis .
qed

theorem settles_iff_witness:
  "generateTurnaroundVideo (worldOf (Inr pendingJob) (answersOf []) (Inr okResponse))
     ''data:image/png;base64,AAAA'' = None
   \<and> generateTurnaroundVideo
       (worldOf (Inr pendingJob) (answersOf [Inr pendingJob, Inr pendingJob, Inl (newError ''503'')])
          (Inr okResponse))
       ''data:image/png;base64,AAAA'' \<noteq> None"
proof -
  have p: "dataUrlParts ''data:image/png;base64,AAAA'' \<noteq> None"
    by (simp add: dataUrlParts_def at_index_def)
  have "\<not> settles (generateVideos (worldOf (Inr pendingJob) (answersOf []) (Inr okResponse)))"
    and "\<forall>k. \<not> settles (getVideosOperation (worldOf (Inr pendingJob) (answersOf []) (Inr okResponse)) k)"
    by (simp_all add: worldOf_def settles_def pendingJob_def answersOf_def)
  with p have never: "generateTurnaroundVideo (worldOf (Inr pendingJob) (answersOf []) (Inr okResponse))
     ''data:image/png;base64,AAAA'' = None"
    by (simp only: settles_iff) simp
  have "settles (getVideosOperation
          (worldOf (Inr pendingJob) (answersOf [Inr pendingJob, Inr pendingJob, Inl (newError ''503'')])
             (Inr okResponse)) 2)"
    by (simp add: worldOf_def settles_def answersOf_def)
  then have "generateTurnaroundVideo
       (worldOf (Inr pendingJob) (answersOf [Inr pendingJob, Inr pendingJob, Inl (newError ''503'')])
          (Inr okResponse))
       ''data:image/png;base64,AAAA'' \<noteq> None"
    unfolding settles_iff by blast
  with never show ?thesis by simp
qed

subsection \<open>C7: the interval\<close>

text \<open>
  Claim C7. Every suspension lasts exactly 5000 ms, in every iteration and in every call.
  In a call that settles, in any world and for any input, the suspensions are \<open>n\<close>
  suspensions of 5000 ms each, where \<open>n\<close> is the number of status fetches. In any run of
  the loop, settling or not, \<open>n + 1\<close> iterations over jobs that are not done add to the events
  \<open>n + 1\<close> times a suspension of 5000 ms followed by a status fetch.
\<close>

theorem interval_fixed:
  "(generateTurnaroundVideo w imageDataUrl = Some (r, tr) \<longrightarrow>
      (\<exists>n. sleeps tr = replicate n 5000 \<and> fetches tr = n))
   \<and> (\<not> op_done operation \<and> pending w k n \<and> getVideosOperation w (k + n) = Inr operation' \<longrightarrow>
        pollLoop w k operation tr0 = pollLoop w (Suc (k + n)) operation' (tr0 @ rounds (Suc n))
        \<and> sleeps (rounds (Suc n)) = replicate (Suc n) 5000)"
proof (intro conjI impI)
  assume run: "generateTurnaroundVideo w imageDataUrl = Some (r, tr)"
  then obtain y where y: "tryBlock w imageDataUrl = Some y" and c: "catchBlock y = (r, tr)"
    by (auto simp: generateTurnaroundVideo_def)
  from tryBlock_shape [OF y] obtain n where "sleeps (snd y) = replicate n 5000 \<and> fetches (snd y) = n"
    by blast
  moreover have "sleeps tr = sleeps (snd y)" "fetches tr = fetches (snd y)"
    using catch_sleeps [of y] catch_fetches [of y] c by simp_all
  ultimately show "\<exists>n. sleeps tr = replicate n 5000 \<and> fetches tr = n" by auto
next
  assume a: "\<not> op_done operation \<and> pending w k n \<and> getVideosOperation w (k + n) = Inr operation'"
  then show "pollLoop w k operation tr0 = pollLoop w (Suc (k + n)) operation' (tr0 @ rounds (Suc n))"
    using pollLoop_pending [of operation w k n tr0] by simp
next
  show "sleeps (rounds (Suc n)) = replicate (Suc n) 5000"
    by (rule sleeps_rounds)
qed

theorem interval_fixed_witness:
  "generateTurnaroundVideo
     (worldOf (Inr pendingJob) (answersOf [Inr pendingJob, Inr (finishedJob ''X'')]) (Inr okResponse))
     ''data:image/png;base64,AAAA''
   = Some (Inr ''blob:video'',
       [GenerateVideos (Some ''AAAA'') ''image/png'', Sleep 5000, GetVideosOperation,
        Sleep 5000, GetVideosOperation, Fetch ''X&key=KEY''])
   \<and> (\<exists>n. sleeps [GenerateVideos (Some ''AAAA'') ''image/png'', Sleep 5000, GetVideosOperation,
        Sleep 5000, GetVideosOperation, Fetch ''X&key=KEY''] = replicate n 5000
        \<and> fetches [GenerateVideos (Some ''AAAA'') ''image/png'', Sleep 5000, GetVideosOperation,
        Sleep 5000, GetVideosOperation, Fetch ''X&key=KEY''] = n)
   \<and> \<not> op_done pendingJob
   \<and> pending (worldOf (Inr pendingJob) (answersOf []) (Inr okResponse)) 0 2
   \<and> getVideosOperation (worldOf (Inr pendingJob) (answersOf []) (Inr okResponse)) (0 + 2) = Inr pendingJob
   \<and> pollLoop (worldOf (Inr pendingJob) (answersOf []) (Inr okResponse)) 0 pendingJob []
       = pollLoop (worldOf (Inr pendingJob) (answersOf []) (Inr okResponse)) 3 pendingJob
           [Sleep 5000, GetVideosOperation, Sleep 5000, GetVideosOperation, Sleep 5000, GetVideosOperation]"
proof -
  let ?w = "worldOf (Inr pendingJob) (answersOf [Inr pendingJob, Inr (finishedJob ''X'')]) (Inr okResponse)"
  let ?v = "worldOf (Inr pendingJob) (answersOf []) (Inr okResponse)"
  have run: "generateTurnaroundVideo ?w ''data:image/png;base64,AAAA''
   = Some (Inr ''blob:video'',
       [GenerateVideos (Some ''AAAA'') ''image/png'', Sleep 5000, GetVideosOperation,
        Sleep 5000, GetVideosOperation, Fetch ''X&key=KEY''])"
    by (simp add: generateTurnaroundVideo_def tryBlock_def dataUrlParts_def at_index_def
        worldOf_def answersOf_def pendingJob_def finishedJob_def okResponse_def pollLoop.simps
        retrieveVideo_def extractVideoUri_def videoUriOf_def downloadVideo_def)
  have h: "\<not> op_done pendingJob \<and> pending ?v 0 2 \<and> getVideosOperation ?v (0 + 2) = Inr pendingJob"
    by (simp add: numeral_2_eq_2 worldOf_def answersOf_def settles_def pendingJob_def)
  have fixed: "(generateTurnaroundVideo ?w ''data:image/png;base64,AAAA''
       = Some (Inr ''blob:video'',
           [GenerateVideos (Some ''AAAA'') ''image/png'', Sleep 5000, GetVideosOperation,
            Sleep 5000, GetVideosOperation, Fetch ''X&key=KEY'']) \<longrightarrow>
      (\<exists>n. sleeps [GenerateVideos (Some ''AAAA'') ''image/png'', Sleep 5000, GetVideosOperation,
            Sleep 5000, GetVideosOperation, Fetch ''X&key=KEY''] = replicate n 5000
          \<and> fetches [GenerateVideos (Some ''AAAA'') ''image/png'', Sleep 5000, GetVideosOperation,
            Sleep 5000, GetVideosOperation, Fetch ''X&key=KEY''] = n))"
    using interval_fixed [of ?w "''data:image/png;base64,AAAA''" "Inr ''blob:video''"
        "[GenerateVideos (Some ''AAAA'') ''image/png'', Sleep 5000, GetVideosOperation,
          Sleep 5000, GetVideosOperation, Fetch ''X&key=KEY'']"]
    by blast
  have loop: "pollLoop ?v 0 pendingJob [] = pollLoop ?v (Suc (0 + 2)) pendingJob ([] @ rounds (Suc 2))"
    using interval_fixed [of ?v _ _ _ pendingJob 0 2 pendingJob "[]"] h by blast
  have r3: "[] @ rounds (Suc 2) =
      [Sleep 5000, GetVideosOperation, Sleep 5000, GetVideosOperation, Sleep 5000, GetVideosOperation]"
    by (simp add: rounds_def numeral_2_eq_2)
  have s3: "Suc (0 + 2) = 3" by simp
  from loop have "pollLoop ?v 0 pendingJob [] = pollLoop ?v 3 pendingJob
      [Sleep 5000, GetVideosOperation, Sleep 5000, GetVideosOperation, Sleep 5000, GetVideosOperation]"
    unfolding r3 s3 .
  with fixed run h show ?thesis by blast
qed

subsection \<open>C8: what the caller receives\<close>

text \<open>
  Claim C8, amended. No error is surfaced unmodified: the caller receives a fresh
  \<open>Error\<close> whose message is the message of the error that arose, or
  \<open>Failed to generate video.\<close> when that message is empty. Each error makes the call reject
  at once, and the only event after it is its console log, so nothing is retried:
  \<^item> the error \<open>getAI()\<close> throws, before anything else happens;
  \<^item> the \<open>TypeError\<close> of a data URL without a colon;
  \<^item> the error \<open>generateVideos\<close> raises (creation failed) or the N-th status fetch raises
    (status fetch failed), after the creation request and \<open>N\<close> rounds of polling;
  \<^item> for a job that is done after \<open>N\<close> status fetches: the error
    \<open>No video URI in response\<close> when the URI is absent or empty (missing result), and
    otherwise, after the download request, the error \<open>fetch\<close> or \<open>blob\<close> raises or the error
    \<open>Failed to download video:\<close> with the status text; when the download succeeds the call
    resolves.
  The error payload of the job is never read: changing it does not change the URI that is
  read, and the outcomes above do not depend on it, so a job that failed is reported by its
  missing URI and no error of its own exists for it. Conversely every rejection arises in
  one of the ways listed, so the code has no timeout error and no cancellation error either.
\<close>

theorem errors_rethrown:
  "rethrown e =
     \<lparr>name = ''Error'', message = (if message e = [] then ''Failed to generate video.'' else message e)\<rparr>
   \<and> (getAI = Inl e \<longrightarrow>
        generateTurnaroundVideoFrom getAI imageDataUrl = Some (Inl (rethrown e), [ConsoleError e]))
   \<and> (getAI = Inr w \<and> dataUrlParts imageDataUrl = None \<longrightarrow>
        generateTurnaroundVideoFrom getAI imageDataUrl =
          Some (Inl (rethrown \<lparr>name = ''TypeError'', message = typeErrorMessage w\<rparr>),
                [ConsoleError \<lparr>name = ''TypeError'', message = typeErrorMessage w\<rparr>]))
   \<and> (getAI = Inr w \<and> dataUrlParts imageDataUrl = Some (b, m) \<and> raisesAfter w N e \<longrightarrow>
        generateTurnaroundVideoFrom getAI imageDataUrl =
          Some (Inl (rethrown e), GenerateVideos b m # rounds N @ [ConsoleError e]))
   \<and> (getAI = Inr w \<and> dataUrlParts imageDataUrl = Some (b, m) \<and> doneAfter w N operation \<longrightarrow>
        videoUriOf (operation\<lparr>op_error := p\<rparr>) = videoUriOf operation \<and>
        (case videoUriOf operation of
           None \<Rightarrow>
             generateTurnaroundVideoFrom getAI imageDataUrl =
               Some (Inl (newError ''No video URI in response''),
                     GenerateVideos b m # rounds N @ [ConsoleError (newError ''No video URI in response'')])
         | Some u \<Rightarrow>
             if u = []
             then generateTurnaroundVideoFrom getAI imageDataUrl =
                    Some (Inl (newError ''No video URI in response''),
                          GenerateVideos b m # rounds N @
                            [ConsoleError (newError ''No video URI in response'')])
             else (case fetch w of
                     Inl e \<Rightarrow>
                       generateTurnaroundVideoFrom getAI imageDataUrl =
                         Some (Inl (rethrown e),
                               GenerateVideos b m # rounds N @
                                 [Fetch (u @ ''&key='' @ API_KEY w), ConsoleError e])
                   | Inr h \<Rightarrow>
                       if \<not> ok h
                       then generateTurnaroundVideoFrom getAI imageDataUrl =
                              Some (Inl (newError (''Failed to download video: '' @ statusText h)),
                                    GenerateVideos b m # rounds N @
                                      [Fetch (u @ ''&key='' @ API_KEY w),
                                       ConsoleError (newError (''Failed to download video: '' @ statusText h))])
                       else (case blob h of
                               Inl e \<Rightarrow>
                                 generateTurnaroundVideoFrom getAI imageDataUrl =
                                   Some (Inl (rethrown e),
                                         GenerateVideos b m # rounds N @
                                           [Fetch (u @ ''&key='' @ API_KEY w), ConsoleError e])
                             | Inr bl \<Rightarrow>
                                 generateTurnaroundVideoFrom getAI imageDataUrl =
                                   Some (Inr (createObjectURL w bl),
                                         GenerateVideos b m # rounds N @
                                           [Fetch (u @ ''&key='' @ API_KEY w)])))))
   \<and> (generateTurnaroundVideoFrom getAI imageDataUrl = Some (Inl e', tr') \<longrightarrow>
        (\<exists>e0 tr. tr' = tr @ [ConsoleError e0] \<and> e' = rethrown e0 \<and>
           (getAI = Inl e0 \<or>
            (\<exists>w0. getAI = Inr w0 \<and>
               ((dataUrlParts imageDataUrl = None \<and>
                   e0 = \<lparr>name = ''TypeError'', message = typeErrorMessage w0\<rparr>) \<or>
                generateVideos w0 = Inl e0 \<or> (\<exists>k. getVideosOperation w0 k = Inl e0) \<or>
                e0 = newError ''No video URI in response'' \<or> fetch w0 = Inl e0 \<or>
                (\<exists>h. fetch w0 = Inr h \<and>
                   (e0 = newError (''Failed to download video: '' @ statusText h) \<or>
                    blob h = Inl e0)))))))"
proof (intro conjI impI)
  show "rethrown e =
     \<lparr>name = ''Error'', message = (if message e = [] then ''Failed to generate video.'' else message e)\<rparr>"
    by (simp add: rethrown_def newError_def)
next
  assume "getAI = Inl e"
  then show "generateTurnaroundVideoFrom getAI imageDataUrl = Some (Inl (rethrown e), [ConsoleError e])"
    by (simp add: generateTurnaroundVideoFrom_def)
next
  assume "getAI = Inr w \<and> dataUrlParts imageDataUrl = None"
  then show "generateTurnaroundVideoFrom getAI imageDataUrl =
          Some (Inl (rethrown \<lparr>name = ''TypeError'', message = typeErrorMessage w\<rparr>),
                [ConsoleError \<lparr>name = ''TypeError'', message = typeErrorMessage w\<rparr>])"
    by (simp add: generateTurnaroundVideoFrom_def run_parse_error)
next
  assume "getAI = Inr w \<and> dataUrlParts imageDataUrl = Some (b, m) \<and> raisesAfter w N e"
  then show "generateTurnaroundVideoFrom getAI imageDataUrl =
          Some (Inl (rethrown e), GenerateVideos b m # rounds N @ [ConsoleError e])"
    by (simp add: generateTurnaroundVideoFrom_def run_raisesAfter)
next
  show "videoUriOf (operation\<lparr>op_error := p\<rparr>) = videoUriOf operation"
    by (simp add: videoUriOf_def)
next
  assume a: "getAI = Inr w \<and> dataUrlParts imageDataUrl = Some (b, m) \<and> doneAfter w N operation"
  then have g: "generateTurnaroundVideoFrom getAI imageDataUrl = generateTurnaroundVideo w imageDataUrl"
    by (simp add: generateTurnaroundVideoFrom_def)
  from a have p: "dataUrlParts imageDataUrl = Some (b, m)" and d: "doneAfter w N operation"
    by simp_all
  show "case videoUriOf operation of
           None \<Rightarrow>
             generateTurnaroundVideoFrom getAI imageDataUrl =
               Some (Inl (newError ''No video URI in response''),
                     GenerateVideos b m # rounds N @ [ConsoleError (newError ''No video URI in response'')])
         | Some u \<Rightarrow>
             if u = []
             then generateTurnaroundVideoFrom getAI imageDataUrl =
                    Some (Inl (newError ''No video URI in response''),
                          GenerateVideos b m # rounds N @
                            [ConsoleError (newError ''No video URI in response'')])
             else (case fetch w of
                     Inl e \<Rightarrow>
                       generateTurnaroundVideoFrom getAI imageDataUrl =
                         Some (Inl (rethrown e),
                               GenerateVideos b m # rounds N @
                                 [Fetch (u @ ''&key='' @ API_KEY w), ConsoleError e])
                   | Inr h \<Rightarrow>
                       if \<not> ok h
                       then generateTurnaroundVideoFrom getAI imageDataUrl =
                              Some (Inl (newError (''Failed to download video: '' @ statusText h)),
                                    GenerateVideos b m # rounds N @
                                      [Fetch (u @ ''&key='' @ API_KEY w),
                                       ConsoleError (newError (''Failed to download video: '' @ statusText h))])
                       else (case blob h of
                               Inl e \<Rightarrow>
                                 generateTurnaroundVideoFrom getAI imageDataUrl =
                                   Some (Inl (rethrown e),
                                         GenerateVideos b m # rounds N @
                                           [Fetch (u @ ''&key='' @ API_KEY w), ConsoleError e])
                             | Inr bl \<Rightarrow>
                                 generateTurnaroundVideoFrom getAI imageDataUrl =
                                   Some (Inr (createObjectURL w bl),
                                         GenerateVideos b m # rounds N @
                                           [Fetch (u @ ''&key='' @ API_KEY w)])))"
    unfolding g by (rule run_done_cases [OF p d])
next
  assume r: "generateTurnaroundVideoFrom getAI imageDataUrl = Some (Inl e', tr')"
  show "\<exists>e0 tr. tr' = tr @ [ConsoleError e0] \<and> e' = rethrown e0 \<and>
           (getAI = Inl e0 \<or>
            (\<exists>w0. getAI = Inr w0 \<and>
               ((dataUrlParts imageDataUrl = None \<and>
                   e0 = \<lparr>name = ''TypeError'', message = typeErrorMessage w0\<rparr>) \<or>
                generateVideos w0 = Inl e0 \<or> (\<exists>k. getVideosOperation w0 k = Inl e0) \<or>
                e0 = newError ''No video URI in response'' \<or> fetch w0 = Inl e0 \<or>
                (\<exists>h. fetch w0 = Inr h \<and>
                   (e0 = newError (''Failed to download video: '' @ statusText h) \<or>
                    blob h = Inl e0)))))"
  proof (cases getAI)
    case (Inl e0)
    with r have "tr' = [] @ [ConsoleError e0] \<and> e' = rethrown e0"
      by (simp add: generateTurnaroundVideoFrom_def)
    with Inl show ?thesis by blast
  next
    case (Inr w0)
    with r have "generateTurnaroundVideo w0 imageDataUrl = Some (Inl e', tr')"
      by (simp add: generateTurnaroundVideoFrom_def)
    from run_error_origin [OF this] Inr show ?thesis by blast
  qed
qed

text \<open>
  Three of these runs: a browser without an API key, a creation request refused for quota,
  and a job that failed with an error payload and no video.
\<close>

theorem errors_rethrown_witness:
  "generateTurnaroundVideoFrom
     (Inl \<lparr>name = ''Error'', message = ''An API Key must be set''\<rparr>) ''data:image/png;base64,AAAA''
     = Some (Inl \<lparr>name = ''Error'', message = ''An API Key must be set''\<rparr>,
          [ConsoleError \<lparr>name = ''Error'', message = ''An API Key must be set''\<rparr>])
   \<and> dataUrlParts ''data:image/png;base64,AAAA'' = Some (Some ''AAAA'', ''image/png'')
   \<and> raisesAfter
        (worldOf (Inl \<lparr>name = ''ApiError'', message = ''quota exceeded''\<rparr>) (answersOf []) (Inr okResponse))
        0 \<lparr>name = ''ApiError'', message = ''quota exceeded''\<rparr>
   \<and> generateTurnaroundVideoFrom
        (Inr (worldOf (Inl \<lparr>name = ''ApiError'', message = ''quota exceeded''\<rparr>) (answersOf [])
                (Inr okResponse)))
        ''data:image/png;base64,AAAA''
      = Some (Inl \<lparr>name = ''Error'', message = ''quota exceeded''\<rparr>,
           [GenerateVideos (Some ''AAAA'') ''image/png'',
            ConsoleError \<lparr>name = ''ApiError'', message = ''quota exceeded''\<rparr>])
   \<and> doneAfter
        (worldOf (Inr pendingJob) (answersOf [Inr (emptyJob\<lparr>op_error := Some ''unsafe prompt''\<rparr>)])
           (Inr okResponse))
        1 (emptyJob\<lparr>op_error := Some ''unsafe prompt''\<rparr>)
   \<and> generateTurnaroundVideoFrom
        (Inr (worldOf (Inr pendingJob) (answersOf [Inr (emptyJob\<lparr>op_error := Some ''unsafe prompt''\<rparr>)])
                (Inr okResponse)))
        ''data:image/png;base64,AAAA''
      = Some (Inl \<lparr>name = ''Error'', message = ''No video URI in response''\<rparr>,
           [GenerateVideos (Some ''AAAA'') ''image/png'', Sleep 5000, GetVideosOperation,
            ConsoleError \<lparr>name = ''Error'', message = ''No video URI in response''\<rparr>])"
proof -
  let ?url = "''data:image/png;base64,AAAA''"
  let ?k = "\<lparr>name = ''Error'', message = ''An API Key must be set''\<rparr>"
  let ?q = "\<lparr>name = ''ApiError'', message = ''quota exceeded''\<rparr>"
  let ?w1 = "worldOf (Inl ?q) (answersOf []) (Inr okResponse)"
  let ?j = "emptyJob\<lparr>op_error := Some ''unsafe prompt''\<rparr>"
  let ?w2 = "worldOf (Inr pendingJob) (answersOf [Inr ?j]) (Inr okResponse)"
  have p: "dataUrlParts ?url = Some (Some ''AAAA'', ''image/png'')"
    by (simp add: dataUrlParts_def at_index_def)
  have r: "raisesAfter ?w1 0 ?q"
    by (simp add: worldOf_def)
  have d: "doneAfter ?w2 1 ?j"
    by (simp add: worldOf_def answersOf_def settles_def pendingJob_def emptyJob_def)
  have u: "videoUriOf ?j = None"
    by (simp add: videoUriOf_def emptyJob_def)
  have a: "generateTurnaroundVideoFrom (Inl ?k) ?url = Some (Inl (rethrown ?k), [ConsoleError ?k])"
    using errors_rethrown [where getAI = "Inl ?k" and e = ?k and imageDataUrl = ?url] by blast
  have b: "generateTurnaroundVideoFrom (Inr ?w1) ?url =
      Some (Inl (rethrown ?q), GenerateVideos (Some ''AAAA'') ''image/png'' # rounds 0 @ [ConsoleError ?q])"
    using errors_rethrown [where getAI = "Inr ?w1" and w = ?w1 and e = ?q and imageDataUrl = ?url
        and b = "Some ''AAAA''" and m = "''image/png''" and N = 0] p r
    by blast
  have "case videoUriOf ?j of
          None \<Rightarrow>
            generateTurnaroundVideoFrom (Inr ?w2) ?url =
              Some (Inl (newError ''No video URI in response''),
                    GenerateVideos (Some ''AAAA'') ''image/png'' # rounds 1 @
                      [ConsoleError (newError ''No video URI in response'')])
        | Some u \<Rightarrow> True"
    using errors_rethrown [where getAI = "Inr ?w2" and w = ?w2 and imageDataUrl = ?url
        and b = "Some ''AAAA''" and m = "''image/png''" and N = 1 and operation = ?j] p d
    by (simp add: u)
  then have c: "generateTurnaroundVideoFrom (Inr ?w2) ?url =
      Some (Inl (newError ''No video URI in response''),
            GenerateVideos (Some ''AAAA'') ''image/png'' # rounds 1 @
              [ConsoleError (newError ''No video URI in response'')])"
    by (simp add: u)
  from a b c p r d show ?thesis
    by (simp add: rethrown_def newError_def rounds_def)
qed

text \<open>
  As first stated, the claim has the caller receive the identical error value. When
  \<open>generateVideos\<close> raises a \<open>TypeError\<close> with an empty message, the caller receives an
  \<open>Error\<close> with the message \<open>Failed to generate video.\<close>
\<close>

theorem errors_rethrown_counterexample:
  "generateVideos
     (worldOf (Inl \<lparr>name = ''TypeError'', message = []\<rparr>) (answersOf []) (Inr okResponse))
     = Inl \<lparr>name = ''TypeError'', message = []\<rparr>
   \<and> generateTurnaroundVideoFrom
       (Inr (worldOf (Inl \<lparr>name = ''TypeError'', message = []\<rparr>) (answersOf []) (Inr okResponse)))
       ''data:image/png;base64,AAAA''
     = Some (Inl \<lparr>name = ''Error'', message = ''Failed to generate video.''\<rparr>,
          [GenerateVideos (Some ''AAAA'') ''image/png'',
           ConsoleError \<lparr>name = ''TypeError'', message = []\<rparr>])
   \<and> \<lparr>name = ''Error'', message = ''Failed to generate video.''\<rparr>
       \<noteq> \<lparr>name = ''TypeError'', message = []\<rparr>"
  by (simp add: generateTurnaroundVideoFrom_def generateTurnaroundVideo_def tryBlock_def
      dataUrlParts_def at_index_def worldOf_def rethrown_def newError_def)

subsection \<open>C9: a job that is done at creation\<close>

text \<open>
  Claim C9, amended. If the job that \<open>generateVideos\<close> returns is already done, the call
  makes no suspension and no status fetch and goes on to read the video URI. Without a
  URI, or with an empty one, it rejects with \<open>No video URI in response\<close>. With a non-empty
  URI \<open>u\<close> it does not resolve with \<open>u\<close>: it requests \<open>u\<close> with \<open>&key=\<close> and the API key
  appended, and resolves with the object URL of the downloaded blob when the download
  succeeds; when \<open>fetch\<close> or \<open>blob\<close> raises it rejects with that error rethrown, and when the
  response is not \<open>ok\<close> it rejects with \<open>Failed to download video:\<close> and the status text.
\<close>

theorem done_at_creation:
  assumes "dataUrlParts imageDataUrl = Some (b, m)"
    and "generateVideos w = Inr operation" and "op_done operation"
  shows "\<exists>r tl. generateTurnaroundVideo w imageDataUrl = Some (r, GenerateVideos b m # tl)
           \<and> sleeps tl = [] \<and> fetches tl = 0
           \<and> (case videoUriOf operation of
                 None \<Rightarrow>
                   r = Inl \<lparr>name = ''Error'', message = ''No video URI in response''\<rparr> \<and>
                   tl = [ConsoleError \<lparr>name = ''Error'', message = ''No video URI in response''\<rparr>]
               | Some u \<Rightarrow>
                   if u = []
                   then r = Inl \<lparr>name = ''Error'', message = ''No video URI in response''\<rparr> \<and>
                        tl = [ConsoleError \<lparr>name = ''Error'', message = ''No video URI in response''\<rparr>]
                   else (case fetch w of
                           Inl e \<Rightarrow>
                             r = Inl (rethrown e) \<and>
                             tl = [Fetch (u @ ''&key='' @ API_KEY w), ConsoleError e]
                         | Inr h \<Rightarrow>
                             if \<not> ok h
                             then r = Inl (newError (''Failed to download video: '' @ statusText h)) \<and>
                                  tl = [Fetch (u @ ''&key='' @ API_KEY w),
                                        ConsoleError (newError (''Failed to download video: '' @ statusText h))]
                             else (case blob h of
                                     Inl e \<Rightarrow>
                                       r = Inl (rethrown e) \<and>
                                       tl = [Fetch (u @ ''&key='' @ API_KEY w), ConsoleError e]
                                   | Inr bl \<Rightarrow>
                                       r = Inr (createObjectURL w bl) \<and>
                                       tl = [Fetch (u @ ''&key='' @ API_KEY w)])))"
proof -
  have d: "doneAfter w 0 operation"
    using assms(2,3) by simp
  note c = run_done_cases [OF assms(1) d, unfolded rounds_0]
  let ?missing = "\<lparr>name = ''Error'', message = ''No video URI in response''\<rparr>"
  show ?thesis
  proof (cases "videoUriOf operation")
    case None
    with c have "generateTurnaroundVideo w imageDataUrl =
        Some (Inl ?missing, GenerateVideos b m # [ConsoleError ?missing])"
      by (simp add: newError_def)
    then show ?thesis
      by (intro exI [of _ "Inl ?missing"] exI [of _ "[ConsoleError ?missing]"])
        (simp add: None fetches_Cons fetches_Nil)
  next
    case (Some u)
    show ?thesis
    proof (cases "u = []")
      case True
      with c Some have "generateTurnaroundVideo w imageDataUrl =
          Some (Inl ?missing, GenerateVideos b m # [ConsoleError ?missing])"
        by (simp add: newError_def)
      then show ?thesis
        by (intro exI [of _ "Inl ?missing"] exI [of _ "[ConsoleError ?missing]"])
          (simp add: Some True fetches_Cons fetches_Nil)
    next
      case False
      let ?f = "Fetch (u @ ''&key='' @ API_KEY w)"
      show ?thesis
      proof (cases "fetch w")
        case (Inl e)
        with c Some False have "generateTurnaroundVideo w imageDataUrl =
            Some (Inl (rethrown e), GenerateVideos b m # [?f, ConsoleError e])"
          by simp
        then show ?thesis
          by (intro exI [of _ "Inl (rethrown e)"] exI [of _ "[?f, ConsoleError e]"])
            (simp add: Some False Inl fetches_Cons fetches_Nil)
      next
        case (Inr h)
        show ?thesis
        proof (cases "ok h")
          case nok: False
          let ?e = "newError (''Failed to download video: '' @ statusText h)"
          from c Some False Inr nok have "generateTurnaroundVideo w imageDataUrl =
              Some (Inl ?e, GenerateVideos b m # [?f, ConsoleError ?e])"
            by simp
          then show ?thesis
            by (intro exI [of _ "Inl ?e"] exI [of _ "[?f, ConsoleError ?e]"])
              (simp add: Some False Inr nok fetches_Cons fetches_Nil)
        next
          case True
          show ?thesis
          proof (cases "blob h")
            case (Inl e)
            with c Some False Inr True have "generateTurnaroundVideo w imageDataUrl =
                Some (Inl (rethrown e), GenerateVideos b m # [?f, ConsoleError e])"
              by simp
            then show ?thesis
              by (intro exI [of _ "Inl (rethrown e)"] exI [of _ "[?f, ConsoleError e]"])
                (simp add: Some False \<open>fetch w = Inr h\<close> True Inl fetches_Cons fetches_Nil)
          next
            case (Inr bl)
            with c Some False \<open>fetch w = Inr h\<close> True have "generateTurnaroundVideo w imageDataUrl =
                Some (Inr (createObjectURL w bl), GenerateVideos b m # [?f])"
              by simp
            then show ?thesis
              by (intro exI [of _ "Inr (createObjectURL w bl)"] exI [of _ "[?f]"])
                (simp add: Some False \<open>fetch w = Inr h\<close> True Inr fetches_Cons fetches_Nil)
          qed
        qed
      qed
    qed
  qed
qed

theorem done_at_creation_witness:
  "dataUrlParts ''data:image/png;base64,AAAA'' = Some (Some ''AAAA'', ''image/png'')
   \<and> generateVideos (worldOf (Inr (finishedJob ''X'')) (answersOf []) (Inr okResponse)) = Inr (finishedJob ''X'')
   \<and> op_done (finishedJob ''X'')
   \<and> generateTurnaroundVideo (worldOf (Inr (finishedJob ''X'')) (answersOf []) (Inr okResponse))
        ''data:image/png;base64,AAAA''
      = Some (Inr ''blob:video'', [GenerateVideos (Some ''AAAA'') ''image/png'', Fetch ''X&key=KEY''])"
proof -
  let ?w = "worldOf (Inr (finishedJob ''X'')) (answersOf []) (Inr okResponse)"
  have p: "dataUrlParts ''data:image/png;base64,AAAA'' = Some (Some ''AAAA'', ''image/png'')"
    by (simp add: dataUrlParts_def at_index_def)
  have g: "generateVideos ?w = Inr (finishedJob ''X'')"
    by (simp add: worldOf_def)
  have d: "op_done (finishedJob ''X'')"
    by (simp add: finishedJob_def)
  have u: "videoUriOf (finishedJob ''X'') = Some ''X''"
    by (simp add: videoUriOf_def finishedJob_def at_index_def)
  have f: "fetch ?w = Inr okResponse" "ok okResponse" "blob okResponse = Inr ''video''"
    "createObjectURL ?w ''video'' = ''blob:video''" "API_KEY ?w = ''KEY''"
    by (simp_all add: worldOf_def okResponse_def)
  from done_at_creation [OF p g d] p g d show ?thesis
    by (auto simp: u f)
qed

text \<open>
  As first stated, the claim has the call resolve with the result when it is present. With
  the result \<open>X\<close> present and a download that raises \<open>Failed to fetch\<close>, the call rejects.
\<close>

theorem done_at_creation_counterexample:
  "generateVideos
     (worldOf (Inr (finishedJob ''X'')) (answersOf [])
        (Inl \<lparr>name = ''TypeError'', message = ''Failed to fetch''\<rparr>))
     = Inr (finishedJob ''X'')
   \<and> op_done (finishedJob ''X'') \<and> videoUriOf (finishedJob ''X'') = Some ''X''
   \<and> generateTurnaroundVideo
       (worldOf (Inr (finishedJob ''X'')) (answersOf [])
          (Inl \<lparr>name = ''TypeError'', message = ''Failed to fetch''\<rparr>))
       ''data:image/png;base64,AAAA''
     = Some (Inl \<lparr>name = ''Error'', message = ''Failed to fetch''\<rparr>,
          [GenerateVideos (Some ''AAAA'') ''image/png'', Fetch ''X&key=KEY'',
           ConsoleError \<lparr>name = ''TypeError'', message = ''Failed to fetch''\<rparr>])"
  by (simp add: generateTurnaroundVideo_def tryBlock_def dataUrlParts_def at_index_def
      worldOf_def finishedJob_def pollLoop.simps
      retrieveVideo_def extractVideoUri_def videoUriOf_def downloadVideo_def rethrown_def newError_def)

subsection \<open>C10: reading the result is total\<close>

text \<open>
  Claim C10. Reading the video URI of a job never fails on a missing field: when the
  response is absent, when the list of generated videos is absent or empty, or when its
  first entry has no video or the video has no URI, the outcome is in each case the same
  error, with the message \<open>No video URI in response\<close>.
\<close>

theorem extraction_total:
  assumes "response operation = None \<or>
     (\<exists>r. response operation = Some r \<and>
        (generatedVideos r = None \<or> generatedVideos r = Some [] \<or>
         (\<exists>g gs. generatedVideos r = Some (g # gs) \<and>
            (video g = None \<or> (\<exists>v. video g = Some v \<and> uri v = None)))))"
  shows "extractVideoUri operation = Inl \<lparr>name = ''Error'', message = ''No video URI in response''\<rparr>"
  using assms by (auto simp: extractVideoUri_def videoUriOf_def at_index_def newError_def)

theorem extraction_total_witness:
  "extractVideoUri \<lparr>op_done = True, response = Some \<lparr>generatedVideos = Some [\<lparr>video = None\<rparr>]\<rparr>, op_error = None\<rparr>
     = Inl \<lparr>name = ''Error'', message = ''No video URI in response''\<rparr>"
  by (rule extraction_total) simp

end
